theory Spec2Isabelle
  imports Main "HOL-Library.Sublist" "HOL-Library.Monad_Syntax"
begin

section \<open>The entity model (Tools/models.py)\<close>

text \<open>
  The three mapped classes and the association table become records, one per row.
  Python's unbounded integers are \<open>int\<close>. A Python \<open>str\<close> is the list of its Unicode code
  points, each a natural number; \<open>str ''abc''\<close> writes one down. A column declared
  \<open>Mapped[Optional[str]]\<close> is nullable and holds a \<open>str option\<close>, a column declared
  \<open>Mapped[str]\<close> is NOT NULL and holds a \<open>str\<close>. Wall-clock values
  (\<open>datetime.utcnow\<close>) are natural numbers that the caller of an operation passes in as
  \<open>now\<close>.
\<close>

type_synonym str = "nat list"
type_synonym timestamp = nat
type_synonym date = nat

definition str :: "string \<Rightarrow> str" where
  "str s = map of_char s"

record user =
  user_id :: int
  first_name :: str
  last_name :: str
  nickname :: str
  password :: str
  email :: str
  birthdate :: date
  location :: "str option"
  gender :: "str option"
  job_title :: "str option"
  phone :: "str option"
  user_created_at :: timestamp

record post =
  post_id :: int
  author_id :: int
  post_title :: str
  post_content :: str
  post_created_at :: timestamp
  rating :: int
  views :: int
  is_published :: bool
  updated_at :: timestamp

record tag =
  tag_id :: int
  tag_title :: str
  description :: "str option"
  tag_created_at :: timestamp

record post_tag =
  pt_post_id :: int
  pt_tag_id :: int
  pt_created_at :: timestamp

text \<open>
  The relational store: every table is the list of its rows in scan order (the order a
  \<open>SELECT\<close> without \<open>ORDER BY\<close> returns them in), and \<open>post_id_seq\<close> is the next value of
  the sequence behind \<open>posts.id\<close>. A sequence is not transactional: a rollback does not
  give a value back.
\<close>

record database =
  users :: "user list"
  posts :: "post list"
  tags :: "tag list"
  posts_tags :: "post_tag list"
  post_id_seq :: int

text \<open>Every exception the data-access layer can raise or let through is a value.\<close>

datatype error =
    TagsNotFound "int set"
  | IntegrityError
  | DataError
  | MultipleResultsFound
  | FileError
  | StatementError

type_synonym 'a outcome = "(error + 'a) \<times> database"

text \<open>
  A \<open>String(n)\<close> column is a \<open>character varying(n)\<close> of the store. A text of more than
  \<open>n\<close> characters is refused with a \<open>DataError\<close>, unless all the characters past the
  first \<open>n\<close> are spaces: then the store keeps the first \<open>n\<close> characters. The limits used
  below are the ones declared in Tools/models.py. A \<open>Text\<close> column has no limit.
\<close>

definition too_long :: "nat \<Rightarrow> str \<Rightarrow> bool" where
  "too_long n s \<longleftrightarrow> n < length s \<and> \<not> list_all (\<lambda>c. c = 32) (drop n s)"

text \<open>
  An UPDATE sets the columns whose attribute has changed. \<open>refused n old new\<close> says that
  the store refuses the new value of a \<open>String(n)\<close> column; \<open>stored n old new\<close> is the
  value the column holds after an UPDATE that went through.
\<close>

definition refused :: "nat \<Rightarrow> str option \<Rightarrow> str option \<Rightarrow> bool" where
  "refused n old new \<longleftrightarrow>
     new \<noteq> old \<and> (case new of None \<Rightarrow> False | Some s \<Rightarrow> too_long n s)"

definition stored :: "nat \<Rightarrow> str \<Rightarrow> str \<Rightarrow> str" where
  "stored n old new = (if new = old then old else take n new)"

definition stored_opt :: "nat \<Rightarrow> str option \<Rightarrow> str option \<Rightarrow> str option" where
  "stored_opt n old new = (if new = old then old else map_option (take n) new)"

section \<open>Response projections\<close>

text \<open>
  Modelled from the spec: Tools/schemas.py (the Pydantic input and response classes) is
  not among the sources. A response is the snapshot of the row together with the related
  rows that \<open>model_validate\<close> reads from the mapped object; an omitted relation is
  \<open>None\<close> for the author and the empty list for a collection.
\<close>

record user_response =
  ur_user :: user
  ur_posts :: "post list"

record post_response =
  pr_post :: post
  pr_author :: "user option"
  pr_tags :: "tag list"

record tag_response =
  tr_tag :: tag
  tr_posts :: "post list"

section \<open>Sessions and the generic primitives (Tools/db.py)\<close>

text \<open>
  Of the methods of \<open>DatabaseManager\<close>, the ones that the statements of this theory are
  about are modelled: \<open>get_session\<close>, \<open>reset_database\<close>, the generic primitives, the
  update, delete and search operations of the three entities, \<open>create_post\<close> and
  \<open>get_post\<close>. Each takes the committed database and returns its result, or the
  exception it raises, together with the database it leaves behind.

  \<open>get_session\<close> runs the body of a \<open>with\<close> block on the committed state. The body
  returns its result and the state it has flushed so far. A normal return commits that
  state; an exception rolls the tables back to the committed state and is raised again.
\<close>

definition rollback :: "database \<Rightarrow> database \<Rightarrow> database" where
  "rollback committed flushed = committed\<lparr>post_id_seq := post_id_seq flushed\<rparr>"

definition get_session :: "(database \<Rightarrow> 'a outcome) \<Rightarrow> database \<Rightarrow> 'a outcome" where
  "get_session body db =
     (case body db of
        (Inr r, db') \<Rightarrow> (Inr r, db')
      | (Inl e, db') \<Rightarrow> (Inl e, rollback db db'))"

text \<open>\<open>_get_by_id\<close>: \<open>session.get(model, id)\<close>, a lookup by primary key.\<close>

definition get_by_id :: "('r \<Rightarrow> int) \<Rightarrow> 'r list \<Rightarrow> int \<Rightarrow> 'r option" where
  "get_by_id key table i = find (\<lambda>r. key r = i) table"

text \<open>The lazily loaded relations of a mapped object.\<close>

definition posts_of_user :: "database \<Rightarrow> int \<Rightarrow> post list" where
  "posts_of_user db uid = filter (\<lambda>p. author_id p = uid) (posts db)"

definition tags_of_post :: "database \<Rightarrow> int \<Rightarrow> tag list" where
  "tags_of_post db pid =
     filter (\<lambda>t. list_ex (\<lambda>a. pt_post_id a = pid \<and> pt_tag_id a = tag_id t) (posts_tags db))
       (tags db)"

definition posts_of_tag :: "database \<Rightarrow> int \<Rightarrow> post list" where
  "posts_of_tag db tid =
     filter (\<lambda>p. list_ex (\<lambda>a. pt_tag_id a = tid \<and> pt_post_id a = post_id p) (posts_tags db))
       (posts db)"

text \<open>\<open>select(Tag).where(Tag.id.in_(ids))\<close>: each matching row once, in scan order.\<close>

definition select_tags_in :: "database \<Rightarrow> int list \<Rightarrow> tag list" where
  "select_tags_in db ids = filter (\<lambda>t. tag_id t \<in> set ids) (tags db)"

section \<open>Post operations\<close>

text \<open>
  Modelled from the spec: the class \<open>PostCreate\<close> of Tools/schemas.py is not among the
  sources. Its fields are the ones \<open>create_post\<close> reads; \<open>tag_ids\<close> may be absent.
\<close>

record post_create =
  pc_title :: str
  pc_content :: str
  pc_is_published :: bool
  pc_tag_ids :: "int list option"

text \<open>
  \<open>session.add(post); session.flush()\<close>: the row takes the next sequence value as its
  id (the value is used up even when the INSERT fails), the column defaults are filled
  in, and one association row is written per tag. The mapped object, from which the
  response is read, keeps the title as it was given; the table holds what the store made
  of it.
\<close>

definition insert_post ::
  "timestamp \<Rightarrow> int \<Rightarrow> post_create \<Rightarrow> tag list \<Rightarrow> database \<Rightarrow> post_response option outcome" where
  "insert_post now author data ts db =
     (let new_id = post_id_seq db;
          db1 = db\<lparr>post_id_seq := new_id + 1\<rparr>;
          obj = \<lparr>post_id = new_id, author_id = author, post_title = pc_title data,
                 post_content = pc_content data, post_created_at = now, rating = 0,
                 views = 0, is_published = pc_is_published data, updated_at = now\<rparr>
      in if too_long 200 (pc_title data) then (Inl DataError, db1)
         else if list_ex (\<lambda>p. post_id p = new_id) (posts db) then (Inl IntegrityError, db1)
         else
           (Inr (Some \<lparr>pr_post = obj, pr_author = get_by_id user_id (users db) author,
                       pr_tags = ts\<rparr>),
            db1\<lparr>posts := posts db @ [obj\<lparr>post_title := take 200 (pc_title data)\<rparr>],
                posts_tags := posts_tags db @
                  map (\<lambda>t. \<lparr>pt_post_id = new_id, pt_tag_id = tag_id t, pt_created_at = now\<rparr>) ts\<rparr>))"

definition create_post ::
  "timestamp \<Rightarrow> int \<Rightarrow> post_create \<Rightarrow> database \<Rightarrow> post_response option outcome" where
  "create_post now author data =
     get_session (\<lambda>db.
       case get_by_id user_id (users db) author of
         None \<Rightarrow> (Inr None, db)
       | Some u \<Rightarrow>
           (case pc_tag_ids data of
              None \<Rightarrow> insert_post now author data [] db
            | Some ids \<Rightarrow>
                if ids = [] then insert_post now author data [] db
                else
                  (let ts = select_tags_in db ids
                   in if length ts \<noteq> length ids
                      then (Inl (TagsNotFound (set ids - tag_id ` set ts)), db)
                      else insert_post now author data ts db)))"

text \<open>
  \<open>get_post\<close>: \<open>scalar_one_or_none\<close> gives the row, \<open>None\<close> when there is none, and
  raises when the query returns more than one row.
\<close>

definition get_post :: "int \<Rightarrow> bool \<Rightarrow> bool \<Rightarrow> database \<Rightarrow> post_response option outcome" where
  "get_post pid include_author include_tags =
     get_session (\<lambda>db.
       case filter (\<lambda>p. post_id p = pid) (posts db) of
         [] \<Rightarrow> (Inr None, db)
       | [p] \<Rightarrow>
           (Inr (Some \<lparr>pr_post = p,
                       pr_author = (if include_author
                                    then get_by_id user_id (users db) (author_id p) else None),
                       pr_tags = (if include_tags then tags_of_post db pid else [])\<rparr>), db)
       | p # q # rest \<Rightarrow> (Inl MultipleResultsFound, db))"

text \<open>
  Modelled from the spec: the update classes of Tools/schemas.py are not among the
  sources. Every field is optional. The outer \<open>option\<close> says whether the field was set
  at all (\<open>model_dump(exclude_unset=True)\<close> keeps exactly the fields that were set); the
  inner one is the value, which may be null.
\<close>

record post_update =
  pu_title :: "str option option"
  pu_content :: "str option option"
  pu_is_published :: "bool option option"
  pu_tag_ids :: "int list option option"

text \<open>
  The loop of \<open>_update\<close>, one key at a time: a key that is in the dictionary is set on
  the mapped object, a key that is not leaves the attribute as it is. Every key of an
  update class names an attribute of its mapped class, so the \<open>hasattr\<close> test of the
  loop holds for each of them. The attribute of a mapped object can hold \<open>None\<close>
  whatever the column says.
\<close>

fun setattr :: "'a option \<Rightarrow> 'a \<Rightarrow> 'a" where
  "setattr None old = old"
| "setattr (Some v) old = v"

text \<open>
  \<open>_update\<close> on a post: the loop over the given keys, then the flush. No UPDATE is sent
  when no attribute has changed. One that is sent is refused with a \<open>DataError\<close> when
  the title does not fit its column, and with an \<open>IntegrityError\<close> when a NOT NULL
  column would become null; otherwise it refreshes \<open>updated_at\<close>. The result is the
  mapped object, which holds the values as they were given, and the row that the UPDATE
  leaves in the table (\<open>None\<close> when no UPDATE was sent).
\<close>

definition update_post_row ::
  "timestamp \<Rightarrow> post \<Rightarrow> post_update \<Rightarrow> error + post \<times> post option" where
  "update_post_row now p data =
     (let t = setattr (pu_title data) (Some (post_title p));
          c = setattr (pu_content data) (Some (post_content p));
          b = setattr (pu_is_published data) (Some (is_published p))
      in if t = Some (post_title p) \<and> c = Some (post_content p) \<and> b = Some (is_published p)
         then Inr (p, None)
         else if refused 200 (Some (post_title p)) t then Inl DataError
         else
           (case do {
                   t' \<leftarrow> t;
                   c' \<leftarrow> c;
                   b' \<leftarrow> b;
                   Some (p\<lparr>post_title := t', post_content := c', is_published := b',
                            updated_at := now\<rparr>,
                         Some (p\<lparr>post_title := stored 200 (post_title p) t',
                                  post_content := c', is_published := b',
                                  updated_at := now\<rparr>))
                 } of
              None \<Rightarrow> Inl IntegrityError
            | Some r \<Rightarrow> Inr r))"

text \<open>
  \<open>db_post.tags = tags\<close> at the flush: the association rows of tags that left the
  collection are deleted, the rows of tags that stayed are kept, and a row is inserted for
  every tag that is new to it.
\<close>

definition replace_tags :: "timestamp \<Rightarrow> int \<Rightarrow> tag list \<Rightarrow> database \<Rightarrow> post_tag list" where
  "replace_tags now pid ts db =
     (let old = map tag_id (tags_of_post db pid);
          new = map tag_id ts;
          removed = filter (\<lambda>i. i \<notin> set new) old;
          added = filter (\<lambda>i. i \<notin> set old) new
      in filter (\<lambda>a. \<not> (pt_post_id a = pid \<and> pt_tag_id a \<in> set removed)) (posts_tags db) @
         map (\<lambda>i. \<lparr>pt_post_id = pid, pt_tag_id = i, pt_created_at = now\<rparr>) added)"

definition flush_post ::
  "timestamp \<Rightarrow> post \<Rightarrow> post_update \<Rightarrow> tag list option \<Rightarrow> database \<Rightarrow> post_response option outcome" where
  "flush_post now db_post data new_tags db =
     (case update_post_row now db_post data of
        Inl e \<Rightarrow> (Inl e, db)
      | Inr (obj, row) \<Rightarrow>
          (let pid = post_id db_post;
               assoc = (case new_tags of None \<Rightarrow> posts_tags db
                        | Some ts \<Rightarrow> replace_tags now pid ts db);
               db' = db\<lparr>posts := (case row of None \<Rightarrow> posts db
                                  | Some r' \<Rightarrow>
                                      map (\<lambda>r. if post_id r = pid then r' else r) (posts db)),
                        posts_tags := assoc\<rparr>
           in (Inr (Some \<lparr>pr_post = obj,
                           pr_author = get_by_id user_id (users db) (author_id obj),
                           pr_tags = (case new_tags of None \<Rightarrow> tags_of_post db pid
                                      | Some ts \<Rightarrow> ts)\<rparr>), db')))"

definition update_post ::
  "timestamp \<Rightarrow> int \<Rightarrow> post_update \<Rightarrow> database \<Rightarrow> post_response option outcome" where
  "update_post now pid data =
     get_session (\<lambda>db.
       case get_by_id post_id (posts db) pid of
         None \<Rightarrow> (Inr None, db)
       | Some db_post \<Rightarrow>
           (case pu_tag_ids data of
              Some (Some ids) \<Rightarrow>
                (let ts = select_tags_in db ids
                 in if length ts \<noteq> length ids
                    then (Inl (TagsNotFound (set ids - tag_id ` set ts)), db)
                    else flush_post now db_post data (Some ts) db)
            | _ \<Rightarrow> flush_post now db_post data None db))"

text \<open>
  \<open>_delete\<close> of a post: the row goes, and with it its association rows.
\<close>

definition delete_post :: "int \<Rightarrow> database \<Rightarrow> bool outcome" where
  "delete_post pid =
     get_session (\<lambda>db.
       case get_by_id post_id (posts db) pid of
         None \<Rightarrow> (Inr False, db)
       | Some db_post \<Rightarrow>
           (Inr True,
            db\<lparr>posts := filter (\<lambda>p. post_id p \<noteq> pid) (posts db),
               posts_tags := filter (\<lambda>a. pt_post_id a \<noteq> pid) (posts_tags db)\<rparr>))"

section \<open>User operations\<close>

record user_update =
  uu_first_name :: "str option option"
  uu_last_name :: "str option option"
  uu_nickname :: "str option option"
  uu_email :: "str option option"
  uu_password :: "str option option"
  uu_birthdate :: "date option option"
  uu_location :: "str option option"
  uu_gender :: "str option option"
  uu_job_title :: "str option option"
  uu_phone :: "str option option"

text \<open>
  \<open>_update\<close> on a user, as for a post: the loop over the given keys, then the flush,
  which sends no UPDATE when no attribute has changed, and whose UPDATE is refused when a
  text does not fit its column or a NOT NULL column would become null.
\<close>

definition update_user_row :: "user \<Rightarrow> user_update \<Rightarrow> error + user \<times> user option" where
  "update_user_row u data =
     (let fn = setattr (uu_first_name data) (Some (first_name u));
          ln = setattr (uu_last_name data) (Some (last_name u));
          nn = setattr (uu_nickname data) (Some (nickname u));
          em = setattr (uu_email data) (Some (email u));
          pw = setattr (uu_password data) (Some (password u));
          bd = setattr (uu_birthdate data) (Some (birthdate u));
          lo = setattr (uu_location data) (location u);
          ge = setattr (uu_gender data) (gender u);
          jt = setattr (uu_job_title data) (job_title u);
          ph = setattr (uu_phone data) (phone u)
      in if fn = Some (first_name u) \<and> ln = Some (last_name u) \<and> nn = Some (nickname u) \<and>
            em = Some (email u) \<and> pw = Some (password u) \<and> bd = Some (birthdate u) \<and>
            lo = location u \<and> ge = gender u \<and> jt = job_title u \<and> ph = phone u
         then Inr (u, None)
         else if refused 50 (Some (first_name u)) fn \<or> refused 50 (Some (last_name u)) ln \<or>
                 refused 30 (Some (nickname u)) nn \<or> refused 100 (Some (email u)) em \<or>
                 refused 255 (Some (password u)) pw \<or> refused 100 (location u) lo \<or>
                 refused 20 (gender u) ge \<or> refused 100 (job_title u) jt \<or>
                 refused 20 (phone u) ph
         then Inl DataError
         else
           (case do {
                   fn' \<leftarrow> fn;
                   ln' \<leftarrow> ln;
                   nn' \<leftarrow> nn;
                   em' \<leftarrow> em;
                   pw' \<leftarrow> pw;
                   bd' \<leftarrow> bd;
                   Some (u\<lparr>first_name := fn', last_name := ln', nickname := nn', email := em',
                            password := pw', birthdate := bd', location := lo, gender := ge,
                            job_title := jt, phone := ph\<rparr>,
                         Some (u\<lparr>first_name := stored 50 (first_name u) fn',
                                  last_name := stored 50 (last_name u) ln',
                                  nickname := stored 30 (nickname u) nn',
                                  email := stored 100 (email u) em',
                                  password := stored 255 (password u) pw',
                                  birthdate := bd',
                                  location := stored_opt 100 (location u) lo,
                                  gender := stored_opt 20 (gender u) ge,
                                  job_title := stored_opt 100 (job_title u) jt,
                                  phone := stored_opt 20 (phone u) ph\<rparr>))
                 } of
              None \<Rightarrow> Inl IntegrityError
            | Some r \<Rightarrow> Inr r))"

text \<open>The unique constraints on \<open>users.nickname\<close> and \<open>users.email\<close>, against the other rows.\<close>

definition user_conflict :: "database \<Rightarrow> user \<Rightarrow> bool" where
  "user_conflict db u =
     list_ex (\<lambda>r. user_id r \<noteq> user_id u \<and> (nickname r = nickname u \<or> email r = email u))
       (users db)"

definition update_user :: "int \<Rightarrow> user_update \<Rightarrow> database \<Rightarrow> user_response option outcome" where
  "update_user uid data =
     get_session (\<lambda>db.
       case get_by_id user_id (users db) uid of
         None \<Rightarrow> (Inr None, db)
       | Some db_user \<Rightarrow>
           (case update_user_row db_user data of
              Inl e \<Rightarrow> (Inl e, db)
            | Inr (obj, None) \<Rightarrow>
                (Inr (Some \<lparr>ur_user = obj, ur_posts = posts_of_user db uid\<rparr>), db)
            | Inr (obj, Some row) \<Rightarrow>
                if user_conflict db row then (Inl IntegrityError, db)
                else
                  (Inr (Some \<lparr>ur_user = obj, ur_posts = posts_of_user db uid\<rparr>),
                   db\<lparr>users := map (\<lambda>r. if user_id r = uid then row else r) (users db)\<rparr>)))"

text \<open>
  \<open>_delete\<close> of a user. The relationship \<open>User.posts\<close> has \<open>cascade="all, delete-orphan"\<close>
  and the foreign keys have \<open>ondelete="CASCADE"\<close>: the user's posts are deleted by their
  ids, and the association rows of those posts with them.
\<close>

definition delete_user :: "int \<Rightarrow> database \<Rightarrow> bool outcome" where
  "delete_user uid =
     get_session (\<lambda>db.
       case get_by_id user_id (users db) uid of
         None \<Rightarrow> (Inr False, db)
       | Some db_user \<Rightarrow>
           (let doomed = map post_id (posts_of_user db uid)
            in (Inr True,
                db\<lparr>users := filter (\<lambda>u. user_id u \<noteq> uid) (users db),
                   posts := filter (\<lambda>p. post_id p \<notin> set doomed) (posts db),
                   posts_tags := filter (\<lambda>a. pt_post_id a \<notin> set doomed) (posts_tags db)\<rparr>)))"

section \<open>Tag operations\<close>

record tag_update =
  tu_title :: "str option option"
  tu_description :: "str option option"

definition update_tag_row :: "tag \<Rightarrow> tag_update \<Rightarrow> error + tag \<times> tag option" where
  "update_tag_row t data =
     (let ti = setattr (tu_title data) (Some (tag_title t));
          de = setattr (tu_description data) (description t)
      in if ti = Some (tag_title t) \<and> de = description t then Inr (t, None)
         else if refused 50 (Some (tag_title t)) ti then Inl DataError
         else
           (case do {
                   ti' \<leftarrow> ti;
                   Some (t\<lparr>tag_title := ti', description := de\<rparr>,
                         Some (t\<lparr>tag_title := stored 50 (tag_title t) ti', description := de\<rparr>))
                 } of
              None \<Rightarrow> Inl IntegrityError
            | Some r \<Rightarrow> Inr r))"

text \<open>The unique constraint on \<open>tags.title\<close>, against the other rows.\<close>

definition tag_conflict :: "database \<Rightarrow> tag \<Rightarrow> bool" where
  "tag_conflict db t =
     list_ex (\<lambda>r. tag_id r \<noteq> tag_id t \<and> tag_title r = tag_title t) (tags db)"

definition update_tag :: "int \<Rightarrow> tag_update \<Rightarrow> database \<Rightarrow> tag_response option outcome" where
  "update_tag tid data =
     get_session (\<lambda>db.
       case get_by_id tag_id (tags db) tid of
         None \<Rightarrow> (Inr None, db)
       | Some db_tag \<Rightarrow>
           (case update_tag_row db_tag data of
              Inl e \<Rightarrow> (Inl e, db)
            | Inr (obj, None) \<Rightarrow>
                (Inr (Some \<lparr>tr_tag = obj, tr_posts = posts_of_tag db tid\<rparr>), db)
            | Inr (obj, Some row) \<Rightarrow>
                if tag_conflict db row then (Inl IntegrityError, db)
                else
                  (Inr (Some \<lparr>tr_tag = obj, tr_posts = posts_of_tag db tid\<rparr>),
                   db\<lparr>tags := map (\<lambda>r. if tag_id r = tid then row else r) (tags db)\<rparr>)))"

text \<open>\<open>_delete\<close> of a tag: its association rows go with it, the posts stay.\<close>

definition delete_tag :: "int \<Rightarrow> database \<Rightarrow> bool outcome" where
  "delete_tag tid =
     get_session (\<lambda>db.
       case get_by_id tag_id (tags db) tid of
         None \<Rightarrow> (Inr False, db)
       | Some db_tag \<Rightarrow>
           (Inr True,
            db\<lparr>tags := filter (\<lambda>t. tag_id t \<noteq> tid) (tags db),
               posts_tags := filter (\<lambda>a. pt_tag_id a \<noteq> tid) (posts_tags db)\<rparr>))"

section \<open>Search\<close>

text \<open>
  The store's \<open>ILIKE\<close>, as \<open>column.ilike(pattern)\<close> uses it. In a pattern \<open>%\<close> (code
  point 37) stands for any run of characters, \<open>_\<close> (95) for any one character, and a
  backslash (92) makes the next character literal; every other character stands for
  itself. The comparison ignores the case of the letters A to Z. The patterns built below
  end in \<open>%\<close>, so a pattern is never left with a lone backslash at its end (which the
  store rejects); that branch is \<open>False\<close>.
\<close>

fun like :: "str \<Rightarrow> str \<Rightarrow> bool" where
  "like [] s = (s = [])"
| "like (p # ps) s =
     (if p = 37 then
        (like ps s \<or> (case s of [] \<Rightarrow> False | c # s' \<Rightarrow> like (p # ps) s'))
      else if p = 95 then
        (case s of [] \<Rightarrow> False | c # s' \<Rightarrow> like ps s')
      else if p = 92 then
        (case ps of [] \<Rightarrow> False
         | q # qs \<Rightarrow> (case s of [] \<Rightarrow> False | c # s' \<Rightarrow> c = q \<and> like qs s'))
      else
        (case s of [] \<Rightarrow> False | c # s' \<Rightarrow> c = p \<and> like ps s'))"

definition lower :: "nat \<Rightarrow> nat" where
  "lower c = (if 65 \<le> c \<and> c \<le> 90 then c + 32 else c)"

definition ilike :: "str \<Rightarrow> str \<Rightarrow> bool" where
  "ilike pattern s = like (map lower pattern) (map lower s)"

text \<open>
  One \<open>if search_params.x: filters.append(Model.x.ilike(f"%{x}%"))\<close>. The test is
  Python truthiness: \<open>None\<close> and the empty string add no filter. A null column value
  matches no pattern.
\<close>

fun filter_on :: "str option \<Rightarrow> ('r \<Rightarrow> str option) \<Rightarrow> ('r \<Rightarrow> bool) list" where
  "filter_on None col = []"
| "filter_on (Some x) col =
     (if x = [] then []
      else [\<lambda>r. case col r of None \<Rightarrow> False
                 | Some s \<Rightarrow> ilike (37 # x @ [37]) s])"

text \<open>
  \<open>if filters: query = query.filter(or_(*filters))\<close>, then \<open>offset\<close> and \<open>limit\<close>.
\<close>

definition run_query :: "('r \<Rightarrow> bool) list \<Rightarrow> nat \<Rightarrow> nat \<Rightarrow> 'r list \<Rightarrow> 'r list" where
  "run_query filters skip limit table =
     take limit (drop skip
       (case filters of
          [] \<Rightarrow> table
        | f # fs \<Rightarrow> filter (\<lambda>r. list_ex (\<lambda>g. g r) filters) table))"

text \<open>
  Modelled from the spec: the search classes of Tools/schemas.py are not among the
  sources. The filter fields are optional strings, \<open>skip\<close> is a non-negative and
  \<open>limit\<close> a positive integer.
\<close>

record user_search =
  us_nickname :: "str option"
  us_email :: "str option"
  us_location :: "str option"
  us_job_title :: "str option"
  us_include_posts :: bool
  us_skip :: nat
  us_limit :: nat

record post_search =
  ps_title :: "str option"
  ps_content :: "str option"
  ps_include_author :: bool
  ps_include_tags :: bool
  ps_skip :: nat
  ps_limit :: nat

definition user_filters :: "user_search \<Rightarrow> (user \<Rightarrow> bool) list" where
  "user_filters sp =
     filter_on (us_nickname sp) (\<lambda>u. Some (nickname u)) @
     filter_on (us_email sp) (\<lambda>u. Some (email u)) @
     filter_on (us_location sp) location @
     filter_on (us_job_title sp) job_title"

definition search_users :: "user_search \<Rightarrow> database \<Rightarrow> user_response list outcome" where
  "search_users sp =
     get_session (\<lambda>db.
       (Inr (map (\<lambda>u. \<lparr>ur_user = u,
                          ur_posts = (if us_include_posts sp
                                      then posts_of_user db (user_id u) else [])\<rparr>)
              (run_query (user_filters sp) (us_skip sp) (us_limit sp) (users db))), db))"

definition post_filters :: "post_search \<Rightarrow> (post \<Rightarrow> bool) list" where
  "post_filters sp =
     filter_on (ps_title sp) (\<lambda>p. Some (post_title p)) @
     filter_on (ps_content sp) (\<lambda>p. Some (post_content p))"

definition search_posts :: "post_search \<Rightarrow> database \<Rightarrow> post_response list outcome" where
  "search_posts sp =
     get_session (\<lambda>db.
       (Inr (map (\<lambda>p. \<lparr>pr_post = p,
                          pr_author = (if ps_include_author sp
                                       then get_by_id user_id (users db) (author_id p) else None),
                          pr_tags = (if ps_include_tags sp
                                     then tags_of_post db (post_id p) else [])\<rparr>)
              (run_query (post_filters sp) (ps_skip sp) (ps_limit sp) (posts db))), db))"

section \<open>Reset\<close>

text \<open>
  \<open>str.split(";")\<close> and \<open>str.strip()\<close>. The white space that \<open>strip\<close> removes is
  the set of code points for which Python's \<open>str.isspace\<close> holds.
\<close>

fun split_acc :: "nat \<Rightarrow> str \<Rightarrow> str \<Rightarrow> str list" where
  "split_acc sep acc [] = [rev acc]"
| "split_acc sep acc (x # xs) =
     (if x = sep then rev acc # split_acc sep [] xs else split_acc sep (x # acc) xs)"

definition split :: "nat \<Rightarrow> str \<Rightarrow> str list" where
  "split sep s = split_acc sep [] s"

definition isspace :: "nat \<Rightarrow> bool" where
  "isspace c \<longleftrightarrow>
     (9 \<le> c \<and> c \<le> 13) \<or> (28 \<le> c \<and> c \<le> 32) \<or> c = 133 \<or> c = 160 \<or> c = 5760 \<or>
     (8192 \<le> c \<and> c \<le> 8202) \<or> c = 8232 \<or> c = 8233 \<or> c = 8239 \<or> c = 8287 \<or>
     c = 12288"

definition strip :: "str \<Rightarrow> str" where
  "strip s = rev (dropWhile isspace (rev (dropWhile isspace s)))"

text \<open>
  \<open>drop_all\<close> followed by \<open>create_all\<close>: the schema with empty tables and fresh
  sequences. Both run on connections of their own and are committed at once.
\<close>

definition create_all :: database where
  "create_all = \<lparr>users = [], posts = [], tags = [], posts_tags = [], post_id_seq = 1\<rparr>"

text \<open>
  The loop over the statements of the seed script. What a statement does is the store's
  business: \<open>exec\<close> is the store's interpreter, which either raises or gives the state
  after the statement, inside the transaction of the session.
\<close>

fun execute_all ::
  "(str \<Rightarrow> database \<Rightarrow> error + database) \<Rightarrow> str list \<Rightarrow> database \<Rightarrow> unit outcome" where
  "execute_all exec [] db = (Inr (), db)"
| "execute_all exec (statement # rest) db =
     (if strip statement \<noteq> [] then
        (case exec statement db of
           Inl e \<Rightarrow> (Inl e, db)
         | Inr db' \<Rightarrow> execute_all exec rest db')
      else execute_all exec rest db)"

text \<open>
  \<open>reset_database\<close>. The script is the text that \<open>f.read()\<close> returns, or \<open>None\<close> when
  the file cannot be read; the schema has been recreated by then. The statements are
  split at the semicolon (code point 59).
\<close>

definition reset_database ::
  "(str \<Rightarrow> database \<Rightarrow> error + database) \<Rightarrow> str option \<Rightarrow> database \<Rightarrow> unit outcome" where
  "reset_database exec script db =
     (case script of
        None \<Rightarrow> (Inl FileError, create_all)
      | Some sql_script \<Rightarrow>
          get_session (execute_all exec (split 59 sql_script)) create_all)"

section \<open>The specification's vocabulary\<close>

text \<open>
  The predicates of this section follow the words of the specification, not the code;
  the theorems below compare the operations with them.

  Partial update: a field that is omitted keeps its old value, a field that is set takes
  the given value (which may be null).
\<close>

fun applied :: "'a option \<Rightarrow> 'a \<Rightarrow> 'a \<Rightarrow> bool" where
  "applied None old new = (new = old)"
| "applied (Some v) old new = (new = v)"

definition user_fields_applied :: "user_update \<Rightarrow> user \<Rightarrow> user \<Rightarrow> bool" where
  "user_fields_applied data old new \<longleftrightarrow>
     applied (uu_first_name data) (Some (first_name old)) (Some (first_name new)) \<and>
     applied (uu_last_name data) (Some (last_name old)) (Some (last_name new)) \<and>
     applied (uu_nickname data) (Some (nickname old)) (Some (nickname new)) \<and>
     applied (uu_email data) (Some (email old)) (Some (email new)) \<and>
     applied (uu_password data) (Some (password old)) (Some (password new)) \<and>
     applied (uu_birthdate data) (Some (birthdate old)) (Some (birthdate new)) \<and>
     applied (uu_location data) (location old) (location new) \<and>
     applied (uu_gender data) (gender old) (gender new) \<and>
     applied (uu_job_title data) (job_title old) (job_title new) \<and>
     applied (uu_phone data) (phone old) (phone new) \<and>
     user_id new = user_id old \<and> user_created_at new = user_created_at old"

definition post_fields_applied :: "post_update \<Rightarrow> post \<Rightarrow> post \<Rightarrow> bool" where
  "post_fields_applied data old new \<longleftrightarrow>
     applied (pu_title data) (Some (post_title old)) (Some (post_title new)) \<and>
     applied (pu_content data) (Some (post_content old)) (Some (post_content new)) \<and>
     applied (pu_is_published data) (Some (is_published old)) (Some (is_published new)) \<and>
     post_id new = post_id old \<and> author_id new = author_id old \<and>
     rating new = rating old \<and> views new = views old \<and>
     post_created_at new = post_created_at old"

definition tag_fields_applied :: "tag_update \<Rightarrow> tag \<Rightarrow> tag \<Rightarrow> bool" where
  "tag_fields_applied data old new \<longleftrightarrow>
     applied (tu_title data) (Some (tag_title old)) (Some (tag_title new)) \<and>
     applied (tu_description data) (description old) (description new) \<and>
     tag_id new = tag_id old \<and> tag_created_at new = tag_created_at old"

text \<open>
  A given text fits a column when it is no longer than the column's limit; the texts of
  an update fit when each one that is given fits its column.
\<close>

fun fits :: "nat \<Rightarrow> str option option \<Rightarrow> bool" where
  "fits n (Some (Some s)) = (length s \<le> n)"
| "fits n v = True"

definition user_update_fits :: "user_update \<Rightarrow> bool" where
  "user_update_fits data \<longleftrightarrow>
     fits 50 (uu_first_name data) \<and> fits 50 (uu_last_name data) \<and>
     fits 30 (uu_nickname data) \<and> fits 100 (uu_email data) \<and>
     fits 255 (uu_password data) \<and> fits 100 (uu_location data) \<and>
     fits 20 (uu_gender data) \<and> fits 100 (uu_job_title data) \<and> fits 20 (uu_phone data)"

text \<open>The update inputs with an empty field-set.\<close>

definition no_user_update :: user_update where
  "no_user_update = \<lparr>uu_first_name = None, uu_last_name = None, uu_nickname = None,
     uu_email = None, uu_password = None, uu_birthdate = None, uu_location = None,
     uu_gender = None, uu_job_title = None, uu_phone = None\<rparr>"

definition no_post_update :: post_update where
  "no_post_update =
     \<lparr>pu_title = None, pu_content = None, pu_is_published = None, pu_tag_ids = None\<rparr>"

definition no_tag_update :: tag_update where
  "no_tag_update = \<lparr>tu_title = None, tu_description = None\<rparr>"

text \<open>
  Search: a filter text is contained in a value when it is a contiguous part of it,
  the case of the letters A to Z aside. A filter counts as provided when it is a
  non-empty text. A row is selected when no filter is provided, or when a provided filter
  is contained in the row's value of that column. A text is plain when it has none of the
  three characters \<open>%\<close>, \<open>_\<close> and backslash.
\<close>

definition icontains :: "str \<Rightarrow> str \<Rightarrow> bool" where
  "icontains x s = sublist (map lower x) (map lower s)"

definition plain :: "str \<Rightarrow> bool" where
  "plain x = list_all (\<lambda>c. c \<noteq> 37 \<and> c \<noteq> 95 \<and> c \<noteq> 92) x"

fun provided :: "str option \<Rightarrow> bool" where
  "provided None = False"
| "provided (Some x) = (x \<noteq> [])"

fun plain_filter :: "str option \<Rightarrow> bool" where
  "plain_filter None = True"
| "plain_filter (Some x) = plain x"

fun field_matches :: "str option \<Rightarrow> str option \<Rightarrow> bool" where
  "field_matches (Some x) (Some s) = (x \<noteq> [] \<and> icontains x s)"
| "field_matches f v = False"

definition user_selected :: "user_search \<Rightarrow> user \<Rightarrow> bool" where
  "user_selected sp u \<longleftrightarrow>
     (\<not> provided (us_nickname sp) \<and> \<not> provided (us_email sp) \<and>
      \<not> provided (us_location sp) \<and> \<not> provided (us_job_title sp)) \<or>
     field_matches (us_nickname sp) (Some (nickname u)) \<or>
     field_matches (us_email sp) (Some (email u)) \<or>
     field_matches (us_location sp) (location u) \<or>
     field_matches (us_job_title sp) (job_title u)"

definition post_selected :: "post_search \<Rightarrow> post \<Rightarrow> bool" where
  "post_selected sp p \<longleftrightarrow>
     (\<not> provided (ps_title sp) \<and> \<not> provided (ps_content sp)) \<or>
     field_matches (ps_title sp) (Some (post_title p)) \<or>
     field_matches (ps_content sp) (Some (post_content p))"

section \<open>Example data\<close>

text \<open>A small database and a few inputs on which the statements below are instantiated.\<close>

definition alice :: user where
  "alice = \<lparr>user_id = 1, first_name = str ''Alice'', last_name = str ''Ames'',
             nickname = str ''alice'', password = str ''pw1'',
             email = str ''alice@example.com'', birthdate = 1990,
             location = Some (str ''Oslo''), gender = None,
             job_title = Some (str ''Senior tEster''), phone = None, user_created_at = 0\<rparr>"

definition bob :: user where
  "bob = \<lparr>user_id = 2, first_name = str ''Bob'', last_name = str ''Berg'',
           nickname = str ''bob'', password = str ''pw2'', email = str ''bob@example.com'',
           birthdate = 1985, location = None, gender = None,
           job_title = Some (str ''Writer''), phone = None, user_created_at = 0\<rparr>"

definition carol :: user where
  "carol = \<lparr>user_id = 3, first_name = str ''Carol'', last_name = str ''Cole'',
             nickname = str ''carol'', password = str ''pw3'',
             email = str ''carol@example.com'', birthdate = 1979,
             location = Some (str ''Bergen''), gender = None,
             job_title = Some (str ''QA TESTER''), phone = None, user_created_at = 0\<rparr>"

definition dave :: user where
  "dave = \<lparr>user_id = 4, first_name = str ''Dave'', last_name = str ''Dahl'',
            nickname = str ''dave'', password = str ''pw4'', email = str ''dave@example.com'',
            birthdate = 1992, location = Some (str ''OSLO''), gender = None,
            job_title = None, phone = None, user_created_at = 0\<rparr>"

definition erin :: user where
  "erin = \<lparr>user_id = 5, first_name = str ''Erin'', last_name = str ''Eide'',
            nickname = str ''erin'', password = str ''pw5'', email = str ''erin@example.com'',
            birthdate = 1988, location = None, gender = None,
            job_title = Some (str ''Editor''), phone = None, user_created_at = 0\<rparr>"

definition tag_news :: tag where
  "tag_news = \<lparr>tag_id = 1, tag_title = str ''news'', description = None,
                tag_created_at = 0\<rparr>"

definition tag_tech :: tag where
  "tag_tech = \<lparr>tag_id = 2, tag_title = str ''tech'', description = Some (str ''Technology''),
                tag_created_at = 0\<rparr>"

definition post_hello :: post where
  "post_hello = \<lparr>post_id = 1, author_id = 1, post_title = str ''Hello'',
                  post_content = str ''First post'', post_created_at = 1, rating = 0,
                  views = 0, is_published = True, updated_at = 1\<rparr>"

definition post_notes :: post where
  "post_notes = \<lparr>post_id = 2, author_id = 2, post_title = str ''Notes'',
                  post_content = str ''Some notes'', post_created_at = 2, rating = 0,
                  views = 0, is_published = False, updated_at = 2\<rparr>"

definition sample_db :: database where
  "sample_db = \<lparr>users = [alice, bob], posts = [post_hello, post_notes],
                 tags = [tag_news, tag_tech],
                 posts_tags = [\<lparr>pt_post_id = 1, pt_tag_id = 1, pt_created_at = 1\<rparr>,
                               \<lparr>pt_post_id = 1, pt_tag_id = 2, pt_created_at = 1\<rparr>],
                 post_id_seq = 3\<rparr>"

definition people_db :: database where
  "people_db = sample_db\<lparr>users := [alice, erin, bob, carol, dave]\<rparr>"

definition new_post :: post_create where
  "new_post = \<lparr>pc_title = str ''Draft'', pc_content = str ''Text'', pc_is_published = True,
                pc_tag_ids = Some [1, 2]\<rparr>"

definition retag :: post_update where
  "retag = \<lparr>pu_title = Some (Some (str ''Updated'')), pu_content = None,
            pu_is_published = None, pu_tag_ids = Some (Some [1])\<rparr>"

definition by_job :: user_search where
  "by_job = \<lparr>us_nickname = None, us_email = None, us_location = None,
             us_job_title = Some (str ''Tester''), us_include_posts = False, us_skip = 0,
             us_limit = 100\<rparr>"

definition by_title :: post_search where
  "by_title = \<lparr>ps_title = Some (str ''hell''), ps_content = None, ps_include_author = False,
               ps_include_tags = False, ps_skip = 0, ps_limit = 100\<rparr>"

definition by_three :: user_search where
  "by_three = \<lparr>us_nickname = Some (str ''BO''), us_email = None,
               us_location = Some (str ''oslo''), us_job_title = Some (str ''tester''),
               us_include_posts = True, us_skip = 1, us_limit = 2\<rparr>"

definition by_two :: post_search where
  "by_two = \<lparr>ps_title = Some (str ''NOTE''), ps_content = Some (str ''first''),
             ps_include_author = True, ps_include_tags = True, ps_skip = 0, ps_limit = 1\<rparr>"

text \<open>A store that knows one statement, which inserts a tag, and rejects every other.\<close>

definition insert_tag_only :: "str \<Rightarrow> database \<Rightarrow> error + database" where
  "insert_tag_only statement db =
     (if strip statement = str ''INSERT TAG'' then Inr (db\<lparr>tags := tags db @ [tag_news]\<rparr>)
      else Inl StatementError)"

lemmas sample_defs =
  sample_db_def people_db_def alice_def bob_def carol_def dave_def erin_def tag_news_def
  tag_tech_def post_hello_def post_notes_def str_def

section \<open>Lookups\<close>

lemma get_by_id_None_iff: "get_by_id key table i = None \<longleftrightarrow> i \<notin> key ` set table"
  by (auto simp: get_by_id_def find_None_iff)

lemma get_by_id_absent: "i \<notin> key ` set table \<Longrightarrow> get_by_id key table i = None"
  by (simp add: get_by_id_None_iff)

lemma get_by_id_Some: "get_by_id key table i = Some r \<Longrightarrow> r \<in> set table \<and> key r = i"
  by (auto simp: get_by_id_def find_Some_iff)

lemma get_by_id_present: "i \<in> key ` set table \<Longrightarrow> \<exists>r. get_by_id key table i = Some r"
  using get_by_id_None_iff [of key table i] by auto

lemma find_map_replace:
  assumes "find (\<lambda>r. key r = i) table = Some old" "key new = i"
  shows "find (\<lambda>r. key r = i) (map (\<lambda>r. if key r = i then new else r) table) = Some new"
  using assms by (induction table) (auto split: if_splits)

section \<open>Identifiers that name no row\<close>

text \<open>
  C9: when \<open>author_id\<close> names no user, \<open>create_post\<close> returns \<open>None\<close> (it does not raise,
  and in particular reports no missing tags) and the database is left as it was,
  whatever the fields and tag ids of the input are.
\<close>

theorem create_post_unknown_author:
  "author \<notin> user_id ` set (users db) \<Longrightarrow> create_post now author data db = (Inr None, db)"
  by (simp add: get_by_id_absent create_post_def get_session_def)

theorem create_post_unknown_author_witness:
  "7 \<notin> user_id ` set (users sample_db) \<and>
   create_post 5 7 new_post sample_db = (Inr None, sample_db)"
proof -
  have h: "7 \<notin> user_id ` set (users sample_db)"
    by (simp add: sample_defs)
  show ?thesis
    using h create_post_unknown_author [OF h, of 5 new_post] by simp
qed

lemma delete_user_True:
  assumes "delete_user uid db = (Inr True, db')"
  shows "posts db' = filter (\<lambda>p. post_id p \<notin> post_id ` set (posts_of_user db uid)) (posts db)"
    and "users db' = filter (\<lambda>u. user_id u \<noteq> uid) (users db)"
    and "posts_tags db' =
           filter (\<lambda>a. pt_post_id a \<notin> post_id ` set (posts_of_user db uid)) (posts_tags db)"
    and "uid \<in> user_id ` set (users db)"
  using assms get_by_id_None_iff [of user_id "users db" uid]
  by (auto simp add: delete_user_def get_session_def Let_def split: option.splits)

lemma delete_post_True:
  assumes "delete_post pid db = (Inr True, db')"
  shows "pid \<in> post_id ` set (posts db) \<and> pid \<notin> post_id ` set (posts db')"
  using assms get_by_id_None_iff [of post_id "posts db" pid]
  by (auto simp add: delete_post_def get_session_def split: option.splits)

lemma delete_tag_True:
  assumes "delete_tag tid db = (Inr True, db')"
  shows "tid \<in> tag_id ` set (tags db) \<and> tid \<notin> tag_id ` set (tags db')"
  using assms get_by_id_None_iff [of tag_id "tags db" tid]
  by (auto simp add: delete_tag_def get_session_def split: option.splits)

text \<open>
  C6: for an identifier that names no row, every update returns \<open>None\<close> and every delete
  returns \<open>False\<close>; neither raises, and the database is left as it was. A delete that
  returns \<open>True\<close> found a row with that identifier and has removed it.
\<close>

theorem absent_id_update_delete:
  "(uid \<notin> user_id ` set (users db) \<longrightarrow>
      update_user uid ud db = (Inr None, db) \<and> delete_user uid db = (Inr False, db)) \<and>
   (pid \<notin> post_id ` set (posts db) \<longrightarrow>
      update_post now pid pd db = (Inr None, db) \<and> delete_post pid db = (Inr False, db)) \<and>
   (tid \<notin> tag_id ` set (tags db) \<longrightarrow>
      update_tag tid td db = (Inr None, db) \<and> delete_tag tid db = (Inr False, db)) \<and>
   (delete_user uid db = (Inr True, db1) \<longrightarrow>
      uid \<in> user_id ` set (users db) \<and> uid \<notin> user_id ` set (users db1)) \<and>
   (delete_post pid db = (Inr True, db2) \<longrightarrow>
      pid \<in> post_id ` set (posts db) \<and> pid \<notin> post_id ` set (posts db2)) \<and>
   (delete_tag tid db = (Inr True, db3) \<longrightarrow>
      tid \<in> tag_id ` set (tags db) \<and> tid \<notin> tag_id ` set (tags db3))"
proof (intro conjI impI)
  assume "delete_user uid db = (Inr True, db1)"
  from delete_user_True(2,4) [OF this]
  show "uid \<in> user_id ` set (users db)" and "uid \<notin> user_id ` set (users db1)"
    by auto
next
  assume "delete_post pid db = (Inr True, db2)"
  from delete_post_True [OF this]
  show "pid \<in> post_id ` set (posts db)" and "pid \<notin> post_id ` set (posts db2)"
    by auto
next
  assume "delete_tag tid db = (Inr True, db3)"
  from delete_tag_True [OF this]
  show "tid \<in> tag_id ` set (tags db)" and "tid \<notin> tag_id ` set (tags db3)"
    by auto
qed (simp_all add: get_by_id_absent update_user_def delete_user_def update_post_def
       delete_post_def update_tag_def delete_tag_def get_session_def)

theorem absent_id_update_delete_witness:
  "8 \<notin> user_id ` set (users sample_db) \<and>
   update_user 8 no_user_update sample_db = (Inr None, sample_db) \<and>
   delete_user 8 sample_db = (Inr False, sample_db) \<and>
   8 \<notin> post_id ` set (posts sample_db) \<and>
   update_post 4 8 retag sample_db = (Inr None, sample_db) \<and>
   delete_post 8 sample_db = (Inr False, sample_db) \<and>
   8 \<notin> tag_id ` set (tags sample_db) \<and>
   update_tag 8 no_tag_update sample_db = (Inr None, sample_db) \<and>
   delete_tag 8 sample_db = (Inr False, sample_db) \<and>
   delete_tag 2 sample_db =
     (Inr True, sample_db\<lparr>tags := [tag_news],
        posts_tags := [\<lparr>pt_post_id = 1, pt_tag_id = 1, pt_created_at = 1\<rparr>]\<rparr>) \<and>
   2 \<in> tag_id ` set (tags sample_db) \<and>
   2 \<notin> tag_id ` set (tags (sample_db\<lparr>tags := [tag_news],
        posts_tags := [\<lparr>pt_post_id = 1, pt_tag_id = 1, pt_created_at = 1\<rparr>]\<rparr>))"
proof -
  let ?db = "sample_db\<lparr>tags := [tag_news],
        posts_tags := [\<lparr>pt_post_id = 1, pt_tag_id = 1, pt_created_at = 1\<rparr>]\<rparr>"
  have h: "8 \<notin> user_id ` set (users sample_db)" "8 \<notin> post_id ` set (posts sample_db)"
    "8 \<notin> tag_id ` set (tags sample_db)"
    by (simp_all add: sample_defs)
  have d: "delete_tag 2 sample_db = (Inr True, ?db)"
    by (simp add: delete_tag_def get_session_def get_by_id_def sample_defs)
  note absent = absent_id_update_delete
    [of 8 sample_db no_user_update 8 4 retag 8 no_tag_update]
  note present = absent_id_update_delete
    [of 8 sample_db no_user_update 8 4 retag 2 no_tag_update _ _ ?db]
  from absent h have
    "update_user 8 no_user_update sample_db = (Inr None, sample_db)"
    "delete_user 8 sample_db = (Inr False, sample_db)"
    "update_post 4 8 retag sample_db = (Inr None, sample_db)"
    "delete_post 8 sample_db = (Inr False, sample_db)"
    "update_tag 8 no_tag_update sample_db = (Inr None, sample_db)"
    "delete_tag 8 sample_db = (Inr False, sample_db)"
    by blast+
  moreover from present d have
    "2 \<in> tag_id ` set (tags sample_db)" "2 \<notin> tag_id ` set (tags ?db)"
    by blast+
  ultimately show ?thesis using h d by (intro conjI)
qed

section \<open>Deleting a user\<close>

lemma get_post_absent:
  assumes "pid \<notin> post_id ` set (posts db)"
  shows "get_post pid include_author include_tags db = (Inr None, db)"
proof -
  have "filter (\<lambda>p. post_id p = pid) (posts db) = []"
    using assms by (auto simp: filter_empty_conv)
  then show ?thesis by (simp add: get_post_def get_session_def)
qed

text \<open>
  C7: after \<open>delete_user\<close> has deleted a user, \<open>get_post\<close> returns \<open>None\<close> for every post
  that the user had written: the post row is gone, and so are its association rows.
\<close>

theorem delete_user_cascades:
  assumes "p \<in> set (posts db)" "author_id p = uid" "delete_user uid db = (Inr True, db')"
  shows "get_post (post_id p) include_author include_tags db' = (Inr None, db') \<and>
         post_id p \<notin> post_id ` set (posts db') \<and>
         post_id p \<notin> pt_post_id ` set (posts_tags db')"
proof -
  have mem: "p \<in> set (posts_of_user db uid)"
    using assms(1,2) by (simp add: posts_of_user_def)
  then have gone: "post_id p \<notin> post_id ` set (posts db')"
    unfolding delete_user_True(1) [OF assms(3)] by (auto simp: image_iff) metis
  have "post_id p \<notin> pt_post_id ` set (posts_tags db')"
    unfolding delete_user_True(3) [OF assms(3)] using mem by force
  then show ?thesis using gone get_post_absent [OF gone] by simp
qed

theorem delete_user_cascades_witness:
  "post_hello \<in> set (posts sample_db) \<and> author_id post_hello = 1 \<and>
   delete_user 1 sample_db =
     (Inr True, sample_db\<lparr>users := [bob], posts := [post_notes], posts_tags := []\<rparr>) \<and>
   get_post (post_id post_hello) True True
       (sample_db\<lparr>users := [bob], posts := [post_notes], posts_tags := []\<rparr>) =
     (Inr None, sample_db\<lparr>users := [bob], posts := [post_notes], posts_tags := []\<rparr>)"
proof -
  let ?db = "sample_db\<lparr>users := [bob], posts := [post_notes], posts_tags := []\<rparr>"
  have h1: "post_hello \<in> set (posts sample_db)" by (simp add: sample_db_def)
  have h2: "author_id post_hello = 1" by (simp add: post_hello_def)
  have h3: "delete_user 1 sample_db = (Inr True, ?db)"
    by (simp add: delete_user_def get_session_def get_by_id_def posts_of_user_def sample_defs)
  from delete_user_cascades [OF h1 h2 h3, of True True]
  have "get_post (post_id post_hello) True True ?db = (Inr None, ?db)" by (rule conjunct1)
  then show ?thesis using h1 h2 h3 by (intro conjI)
qed

section \<open>Empty filters\<close>

text \<open>
  C10: in \<open>search_users\<close> and \<open>search_posts\<close> a filter field that is given as the empty
  string is treated exactly like a filter that is absent: the presence test is Python
  truthiness, so neither adds a condition to the query.
\<close>

theorem empty_filter_as_absent:
  "search_users (us\<lparr>us_nickname := Some []\<rparr>) db = search_users (us\<lparr>us_nickname := None\<rparr>) db \<and>
   search_users (us\<lparr>us_email := Some []\<rparr>) db = search_users (us\<lparr>us_email := None\<rparr>) db \<and>
   search_users (us\<lparr>us_location := Some []\<rparr>) db = search_users (us\<lparr>us_location := None\<rparr>) db \<and>
   search_users (us\<lparr>us_job_title := Some []\<rparr>) db =
     search_users (us\<lparr>us_job_title := None\<rparr>) db \<and>
   search_posts (ps\<lparr>ps_title := Some []\<rparr>) db = search_posts (ps\<lparr>ps_title := None\<rparr>) db \<and>
   search_posts (ps\<lparr>ps_content := Some []\<rparr>) db = search_posts (ps\<lparr>ps_content := None\<rparr>) db"
  by (simp add: search_users_def search_posts_def user_filters_def post_filters_def)

theorem empty_filter_as_absent_witness:
  "search_users (by_job\<lparr>us_nickname := Some []\<rparr>) sample_db =
     search_users (by_job\<lparr>us_nickname := None\<rparr>) sample_db \<and>
   search_posts (by_title\<lparr>ps_content := Some []\<rparr>) sample_db =
     search_posts (by_title\<lparr>ps_content := None\<rparr>) sample_db"
  using empty_filter_as_absent [of by_job sample_db by_title] by blast

section \<open>The tag check of \<open>create_post\<close> and \<open>update_post\<close>\<close>

lemma length_select_tags_in:
  assumes "distinct (map tag_id (tags db))"
  shows "length (select_tags_in db ids) = card (set ids \<inter> tag_id ` set (tags db))"
proof -
  have d: "distinct (map tag_id (select_tags_in db ids))"
    unfolding select_tags_in_def using assms by (rule distinct_map_filter)
  have "length (select_tags_in db ids) = length (map tag_id (select_tags_in db ids))" by simp
  also have "\<dots> = card (set (map tag_id (select_tags_in db ids)))"
    using d by (simp only: distinct_card)
  also have "set (map tag_id (select_tags_in db ids)) = set ids \<inter> tag_id ` set (tags db)"
    by (auto simp: select_tags_in_def)
  finally show ?thesis .
qed

lemma missing_ids_eq:
  "set ids - tag_id ` set (select_tags_in db ids) = set ids - tag_id ` set (tags db)"
  by (auto simp: select_tags_in_def)

lemma select_tags_ids:
  "set ids \<subseteq> tag_id ` set (tags db) \<Longrightarrow> tag_id ` set (select_tags_in db ids) = set ids"
  by (auto simp: select_tags_in_def)

lemma select_short_unknown:
  assumes "distinct (map tag_id (tags db))" "\<not> set ids \<subseteq> tag_id ` set (tags db)"
  shows "length (select_tags_in db ids) < length ids"
proof -
  have "set ids \<inter> tag_id ` set (tags db) \<subset> set ids" using assms(2) by auto
  then have "card (set ids \<inter> tag_id ` set (tags db)) < card (set ids)"
    by (simp add: psubset_card_mono)
  also have "\<dots> \<le> length ids" by (rule card_length)
  finally show ?thesis by (simp add: length_select_tags_in [OF assms(1)])
qed

lemma select_short_duplicates:
  assumes "distinct (map tag_id (tags db))" "\<not> distinct ids"
  shows "length (select_tags_in db ids) < length ids"
proof -
  have "card (set ids \<inter> tag_id ` set (tags db)) \<le> card (set ids)"
    by (simp add: card_mono)
  moreover have "card (set ids) < length ids"
    using assms(2) card_distinct [of ids] card_length [of ids] by fastforce
  ultimately show ?thesis by (simp add: length_select_tags_in [OF assms(1)])
qed

lemma select_full:
  assumes "distinct (map tag_id (tags db))" "distinct ids" "set ids \<subseteq> tag_id ` set (tags db)"
  shows "length (select_tags_in db ids) = length ids"
proof -
  have "set ids \<inter> tag_id ` set (tags db) = set ids" using assms(3) by auto
  then show ?thesis
    using assms(2) by (simp add: length_select_tags_in [OF assms(1)] distinct_card)
qed

lemma create_post_short_select:
  assumes "author \<in> user_id ` set (users db)" "pc_tag_ids data = Some ids"
    "length (select_tags_in db ids) < length ids"
  shows "create_post now author data db =
           (Inl (TagsNotFound (set ids - tag_id ` set (tags db))), db)"
proof -
  obtain u where u: "get_by_id user_id (users db) author = Some u"
    using get_by_id_present [OF assms(1)] by blast
  have ne: "ids \<noteq> []" using assms(3) by auto
  have len: "length (select_tags_in db ids) \<noteq> length ids" using assms(3) by simp
  show ?thesis
    by (simp add: create_post_def get_session_def u assms(2) ne len Let_def missing_ids_eq
        rollback_def)
qed

lemma update_post_short_select:
  assumes "pid \<in> post_id ` set (posts db)" "pu_tag_ids data = Some (Some ids)"
    "length (select_tags_in db ids) < length ids"
  shows "update_post now pid data db =
           (Inl (TagsNotFound (set ids - tag_id ` set (tags db))), db)"
proof -
  obtain p where p: "get_by_id post_id (posts db) pid = Some p"
    using get_by_id_present [OF assms(1)] by blast
  have len: "length (select_tags_in db ids) \<noteq> length ids" using assms(3) by simp
  show ?thesis
    by (simp add: update_post_def get_session_def p assms(2) len Let_def missing_ids_eq
        rollback_def)
qed

text \<open>
  C1 (amended): when the author exists and the tag-id list of the input has an id that
  names no tag, \<open>create_post\<close> raises "Tags not found", the database is left as it was
  (no post row, no association row), and the set of ids in the error is exactly the set
  of ids of the input that name no tag. The ids of the tags table are unique, as its
  primary key demands.
\<close>

theorem create_post_missing_tags:
  assumes "author \<in> user_id ` set (users db)" "distinct (map tag_id (tags db))"
    "pc_tag_ids data = Some ids" "\<not> set ids \<subseteq> tag_id ` set (tags db)"
  shows "create_post now author data db =
           (Inl (TagsNotFound (set ids - tag_id ` set (tags db))), db)"
  using assms(1,3) select_short_unknown [OF assms(2,4)] by (rule create_post_short_select)

theorem create_post_missing_tags_witness:
  "1 \<in> user_id ` set (users sample_db) \<and> distinct (map tag_id (tags sample_db)) \<and>
   pc_tag_ids (new_post\<lparr>pc_tag_ids := Some [2, 9, 5]\<rparr>) = Some [2, 9, 5] \<and>
   \<not> set [2, 9, 5] \<subseteq> tag_id ` set (tags sample_db) \<and>
   create_post 5 1 (new_post\<lparr>pc_tag_ids := Some [2, 9, 5]\<rparr>) sample_db =
     (Inl (TagsNotFound {9, 5}), sample_db)"
proof -
  have h1: "1 \<in> user_id ` set (users sample_db)" by (simp add: sample_defs)
  have h2: "distinct (map tag_id (tags sample_db))" by (simp add: sample_defs)
  have h3: "pc_tag_ids (new_post\<lparr>pc_tag_ids := Some [2, 9, 5]\<rparr>) = Some [2, 9, 5]" by simp
  have h4: "\<not> set [2, 9, 5] \<subseteq> tag_id ` set (tags sample_db)" by (simp add: sample_defs)
  have m: "set [2, 9, 5] - tag_id ` set (tags sample_db) = {9, 5}"
    by (auto simp add: sample_defs)
  from create_post_missing_tags [OF h1 h2 h3 h4, of 5]
  have "create_post 5 1 (new_post\<lparr>pc_tag_ids := Some [2, 9, 5]\<rparr>) sample_db =
     (Inl (TagsNotFound {9, 5}), sample_db)"
    unfolding m .
  then show ?thesis using h1 h2 h3 h4 by (intro conjI)
qed

theorem create_post_missing_tags_counterexample:
  "9 \<notin> tag_id ` set (tags sample_db) \<and>
   create_post 5 7 (new_post\<lparr>pc_tag_ids := Some [1, 9]\<rparr>) sample_db = (Inr None, sample_db)"
  by (simp add: create_post_def get_session_def get_by_id_def sample_defs)

text \<open>
  C8 (amended): when the tag-id list repeats an id and all its ids name tags,
  \<open>create_post\<close> for an existing author and \<open>update_post\<close> for an existing post raise
  "Tags not found" with an empty set of missing ids, and leave the database as it was:
  the check compares the length of the list with the number of tag rows found. The ids
  of the tags table are unique, as its primary key demands.
\<close>

theorem duplicate_tag_ids_rejected:
  assumes "distinct (map tag_id (tags db))" "\<not> distinct ids"
    "set ids \<subseteq> tag_id ` set (tags db)"
  shows "(author \<in> user_id ` set (users db) \<and> pc_tag_ids cdata = Some ids \<longrightarrow>
            create_post now author cdata db = (Inl (TagsNotFound {}), db)) \<and>
         (pid \<in> post_id ` set (posts db) \<and> pu_tag_ids udata = Some (Some ids) \<longrightarrow>
            update_post now pid udata db = (Inl (TagsNotFound {}), db))"
proof -
  have m: "set ids - tag_id ` set (tags db) = {}" using assms(3) by auto
  note short = select_short_duplicates [OF assms(1,2)]
  show ?thesis
    using create_post_short_select [of author db cdata ids now, OF _ _ short]
      update_post_short_select [of pid db udata ids now, OF _ _ short]
    unfolding m by blast
qed

theorem duplicate_tag_ids_rejected_witness:
  "distinct (map tag_id (tags sample_db)) \<and> \<not> distinct [2, 1, 2 :: int] \<and>
   set [2, 1, 2] \<subseteq> tag_id ` set (tags sample_db) \<and>
   2 \<in> user_id ` set (users sample_db) \<and>
   pc_tag_ids (new_post\<lparr>pc_tag_ids := Some [2, 1, 2]\<rparr>) = Some [2, 1, 2] \<and>
   create_post 5 2 (new_post\<lparr>pc_tag_ids := Some [2, 1, 2]\<rparr>) sample_db =
     (Inl (TagsNotFound {}), sample_db) \<and>
   1 \<in> post_id ` set (posts sample_db) \<and>
   pu_tag_ids (retag\<lparr>pu_tag_ids := Some (Some [2, 1, 2])\<rparr>) = Some (Some [2, 1, 2]) \<and>
   update_post 5 1 (retag\<lparr>pu_tag_ids := Some (Some [2, 1, 2])\<rparr>) sample_db =
     (Inl (TagsNotFound {}), sample_db)"
proof -
  have h1: "distinct (map tag_id (tags sample_db))" by (simp add: sample_defs)
  have h2: "\<not> distinct [2, 1, 2 :: int]" by simp
  have h3: "set [2, 1, 2] \<subseteq> tag_id ` set (tags sample_db)" by (simp add: sample_defs)
  have h4: "2 \<in> user_id ` set (users sample_db)" by (simp add: sample_defs)
  have h5: "pc_tag_ids (new_post\<lparr>pc_tag_ids := Some [2, 1, 2]\<rparr>) = Some [2, 1, 2]" by simp
  have h6: "1 \<in> post_id ` set (posts sample_db)" by (simp add: sample_defs)
  have h7: "pu_tag_ids (retag\<lparr>pu_tag_ids := Some (Some [2, 1, 2])\<rparr>) = Some (Some [2, 1, 2])"
    by simp
  note r = duplicate_tag_ids_rejected [OF h1 h2 h3,
      of 2 "new_post\<lparr>pc_tag_ids := Some [2, 1, 2]\<rparr>" 5 1
         "retag\<lparr>pu_tag_ids := Some (Some [2, 1, 2])\<rparr>"]
  from r h4 h5 have
    c: "create_post 5 2 (new_post\<lparr>pc_tag_ids := Some [2, 1, 2]\<rparr>) sample_db =
     (Inl (TagsNotFound {}), sample_db)" by blast
  from r h6 h7 have
    u: "update_post 5 1 (retag\<lparr>pu_tag_ids := Some (Some [2, 1, 2])\<rparr>) sample_db =
     (Inl (TagsNotFound {}), sample_db)" by blast
  show ?thesis using h1 h2 h3 h4 h5 h6 h7 c u by (intro conjI)
qed

theorem duplicate_tag_ids_rejected_counterexample:
  "\<not> distinct [1, 1 :: int] \<and> set [1, 1] \<subseteq> tag_id ` set (tags sample_db) \<and>
   create_post 5 7 (new_post\<lparr>pc_tag_ids := Some [1, 1]\<rparr>) sample_db = (Inr None, sample_db) \<and>
   update_post 5 7 (retag\<lparr>pu_tag_ids := Some (Some [1, 1])\<rparr>) sample_db = (Inr None, sample_db)"
  by (simp add: create_post_def update_post_def get_session_def get_by_id_def sample_defs)

section \<open>Replacing the tags of a post\<close>

lemma replace_tags_ex:
  assumes "t \<in> set (tags db)"
  shows "list_ex (\<lambda>a. pt_post_id a = pid \<and> pt_tag_id a = tag_id t) (replace_tags now pid ts db)
         \<longleftrightarrow> tag_id t \<in> tag_id ` set ts"
proof
  assume "list_ex (\<lambda>a. pt_post_id a = pid \<and> pt_tag_id a = tag_id t) (replace_tags now pid ts db)"
  then obtain a where a: "a \<in> set (replace_tags now pid ts db)" "pt_post_id a = pid"
      "pt_tag_id a = tag_id t"
    by (auto simp: list_ex_iff)
  have "set (replace_tags now pid ts db) \<subseteq>
      {a \<in> set (posts_tags db). \<not> (pt_post_id a = pid \<and>
          pt_tag_id a \<in> tag_id ` set (tags_of_post db pid) \<and> pt_tag_id a \<notin> tag_id ` set ts)}
      \<union> {a. pt_tag_id a \<in> tag_id ` set ts}"
    by (auto simp: replace_tags_def Let_def)
  with a(1,2) consider
    (kept) "a \<in> set (posts_tags db)"
       "\<not> (pt_tag_id a \<in> tag_id ` set (tags_of_post db pid) \<and> pt_tag_id a \<notin> tag_id ` set ts)"
  | (added) "pt_tag_id a \<in> tag_id ` set ts"
    by blast
  then show "tag_id t \<in> tag_id ` set ts"
  proof cases
    case kept
    have "t \<in> set (tags_of_post db pid)"
      using assms kept(1) a(2,3) by (auto simp: tags_of_post_def list_ex_iff)
    then show ?thesis using kept(2) a(3) by auto
  next
    case added
    then show ?thesis using a(3) by simp
  qed
next
  assume new: "tag_id t \<in> tag_id ` set ts"
  show "list_ex (\<lambda>a. pt_post_id a = pid \<and> pt_tag_id a = tag_id t) (replace_tags now pid ts db)"
  proof (cases "tag_id t \<in> tag_id ` set (tags_of_post db pid)")
    case True
    then obtain a where "a \<in> set (posts_tags db)" "pt_post_id a = pid" "pt_tag_id a = tag_id t"
      by (auto simp: tags_of_post_def list_ex_iff)
    then show ?thesis using new
      by (auto simp: replace_tags_def Let_def list_ex_iff)
  next
    case False
    let ?row = "\<lparr>pt_post_id = pid, pt_tag_id = tag_id t, pt_created_at = now\<rparr>"
    have "tag_id t \<in> set (filter (\<lambda>i. i \<notin> set (map tag_id (tags_of_post db pid)))
                              (map tag_id ts))"
      using new False by simp
    then have "?row \<in> set (replace_tags now pid ts db)"
      unfolding replace_tags_def Let_def set_append set_map by (intro UnI2 imageI)
    then show ?thesis
      unfolding list_ex_iff by (intro bexI [of _ ?row]) simp_all
  qed
qed

lemma tags_of_post_replace:
  assumes "tags db' = tags db" "posts_tags db' = replace_tags now pid (select_tags_in db ids) db"
  shows "tags_of_post db' pid = select_tags_in db ids"
proof -
  have "tags_of_post db' pid =
      filter (\<lambda>t. tag_id t \<in> tag_id ` set (select_tags_in db ids)) (tags db)"
    unfolding tags_of_post_def assms
    by (rule filter_cong) (simp_all add: replace_tags_ex)
  also have "\<dots> = filter (\<lambda>t. tag_id t \<in> set ids) (tags db)"
    by (rule filter_cong) (auto simp: select_tags_in_def)
  finally show ?thesis by (simp add: select_tags_in_def)
qed

section \<open>Text that fits its column\<close>

lemma applied_setattr: "applied x old new \<longleftrightarrow> setattr x old = new"
  by (cases x) auto

lemma stored_fits:
  "setattr x (Some old) = Some v \<Longrightarrow> fits n x \<Longrightarrow> stored n old v = v"
  by (cases "(n, x)" rule: fits.cases) (auto simp: stored_def)

lemma stored_opt_fits:
  "fits n x \<Longrightarrow> stored_opt n old (setattr x old) = setattr x old"
  by (cases "(n, x)" rule: fits.cases) (auto simp: stored_opt_def)

lemma not_refused:
  "fits n x \<Longrightarrow> \<not> refused n old (setattr x old)"
  by (cases "(n, x)" rule: fits.cases) (auto simp: refused_def too_long_def)

lemma rollback_same: "rollback db db = db"
  by (simp add: rollback_def)

section \<open>The flush of an updated post\<close>

lemma update_post_row_applied:
  "update_post_row now p data = Inr (obj, row) \<Longrightarrow> post_fields_applied data p obj"
  by (auto simp: update_post_row_def Let_def post_fields_applied_def applied_setattr
      bind_eq_Some_conv split: if_splits option.splits)

lemma update_post_row_stored:
  "update_post_row now p data = Inr (obj, Some row) \<Longrightarrow> fits 200 (pu_title data) \<Longrightarrow> row = obj"
  by (auto simp: update_post_row_def Let_def stored_fits bind_eq_Some_conv
      split: if_splits option.splits)

lemma update_post_row_id:
  "update_post_row now p data = Inr (obj, Some row) \<Longrightarrow> post_id row = post_id p"
  by (auto simp: update_post_row_def Let_def bind_eq_Some_conv split: if_splits option.splits)

lemma update_post_row_unchanged:
  "update_post_row now p data = Inr (obj, None) \<Longrightarrow> obj = p"
  by (auto simp: update_post_row_def Let_def bind_eq_Some_conv split: if_splits option.splits)

lemma update_post_row_accepts:
  assumes "pu_title data \<noteq> Some None" "pu_content data \<noteq> Some None"
    "pu_is_published data \<noteq> Some None" "fits 200 (pu_title data)"
  shows "\<exists>obj row. update_post_row now p data = Inr (obj, row)"
proof -
  obtain t where t: "setattr (pu_title data) (Some (post_title p)) = Some t"
    using assms(1) by (cases "pu_title data") auto
  obtain c where c: "setattr (pu_content data) (Some (post_content p)) = Some c"
    using assms(2) by (cases "pu_content data") auto
  obtain b where b: "setattr (pu_is_published data) (Some (is_published p)) = Some b"
    using assms(3) by (cases "pu_is_published data") auto
  have "\<not> refused 200 (Some (post_title p)) (Some t)"
    using not_refused [OF assms(4), of "Some (post_title p)"] t by simp
  then show ?thesis
    by (simp add: update_post_row_def t c b Let_def)
qed

lemma flush_post_tags:
  assumes "update_post_row now p data = Inr (obj, row)"
  shows "\<exists>r db'. flush_post now p data (Some (select_tags_in db ids)) db = (Inr (Some r), db') \<and>
           pr_tags r = select_tags_in db ids \<and>
           tags_of_post db' (post_id p) = select_tags_in db ids"
proof -
  let ?db' = "db\<lparr>posts := (case row of None \<Rightarrow> posts db
                          | Some r' \<Rightarrow>
                              map (\<lambda>r. if post_id r = post_id p then r' else r) (posts db)),
                 posts_tags := replace_tags now (post_id p) (select_tags_in db ids) db\<rparr>"
  have "tags_of_post ?db' (post_id p) = select_tags_in db ids"
    by (rule tags_of_post_replace) simp_all
  then show ?thesis
    by (simp add: flush_post_def assms Let_def)
qed

lemma update_post_tag_list:
  assumes "pid \<in> post_id ` set (posts db)" "distinct (map tag_id (tags db))"
    "pu_tag_ids data = Some (Some ids)" "distinct ids" "set ids \<subseteq> tag_id ` set (tags db)"
    "pu_title data \<noteq> Some None" "pu_content data \<noteq> Some None"
    "pu_is_published data \<noteq> Some None" "fits 200 (pu_title data)"
  shows "\<exists>r db'. update_post now pid data db = (Inr (Some r), db') \<and>
             tag_id ` set (pr_tags r) = set ids \<and>
             tag_id ` set (tags_of_post db' pid) = set ids"
proof -
  obtain p where p: "get_by_id post_id (posts db) pid = Some p"
    using get_by_id_present [OF assms(1)] by blast
  then have pid: "post_id p = pid" by (simp add: get_by_id_Some)
  obtain obj row where p': "update_post_row now p data = Inr (obj, row)"
    using update_post_row_accepts [OF assms(6-9)] by blast
  have len: "length (select_tags_in db ids) = length ids"
    using assms(2,4,5) by (rule select_full)
  obtain r db' where r:
    "flush_post now p data (Some (select_tags_in db ids)) db = (Inr (Some r), db')"
    "pr_tags r = select_tags_in db ids" "tags_of_post db' (post_id p) = select_tags_in db ids"
    using flush_post_tags [OF p'] by blast
  have "update_post now pid data db = (Inr (Some r), db')"
    by (simp add: update_post_def get_session_def p assms(3) len r(1))
  then show ?thesis
    using r(2,3) pid select_tags_ids [OF assms(5)] by auto
qed

text \<open>
  C2: \<open>update_post\<close> on post 2 of the example database, which has no tags, with the tag-id
  list \<open>[1, 1]\<close>, whose only id names a tag. The select finds one tag row for a list of
  length two, so the length comparison raises "Tags not found" with an empty set of
  missing ids, and the tags of the post stay as they were instead of becoming the
  supplied set.
\<close>

theorem update_post_repeated_tag_id:
  "2 \<in> post_id ` set (posts sample_db) \<and> set [1, 1] \<subseteq> tag_id ` set (tags sample_db) \<and>
   update_post 9 2 (retag\<lparr>pu_tag_ids := Some (Some [1, 1])\<rparr>) sample_db =
     (Inl (TagsNotFound {}), sample_db) \<and>
   tag_id ` set (tags_of_post sample_db 2) \<noteq> set [1, 1]"
  by (simp add: update_post_def get_session_def get_by_id_def select_tags_in_def sample_defs
      retag_def rollback_def tags_of_post_def)

section \<open>Partial updates\<close>

lemma update_user_row_applied:
  "update_user_row u data = Inr (obj, row) \<Longrightarrow> user_fields_applied data u obj"
  by (auto simp: update_user_row_def Let_def user_fields_applied_def applied_setattr
      bind_eq_Some_conv split: if_splits option.splits)

lemma update_user_row_stored:
  "update_user_row u data = Inr (obj, Some row) \<Longrightarrow> user_update_fits data \<Longrightarrow> row = obj"
  by (auto simp: update_user_row_def Let_def user_update_fits_def stored_fits stored_opt_fits
      bind_eq_Some_conv split: if_splits option.splits)

lemma update_user_row_id:
  "update_user_row u data = Inr (obj, Some row) \<Longrightarrow> user_id row = user_id u"
  by (auto simp: update_user_row_def Let_def bind_eq_Some_conv split: if_splits option.splits)

lemma update_user_row_unchanged:
  "update_user_row u data = Inr (obj, None) \<Longrightarrow> obj = u"
  by (auto simp: update_user_row_def Let_def bind_eq_Some_conv split: if_splits option.splits)

lemma update_tag_row_applied:
  "update_tag_row t data = Inr (obj, row) \<Longrightarrow> tag_fields_applied data t obj"
  by (auto simp: update_tag_row_def Let_def tag_fields_applied_def applied_setattr
      bind_eq_Some_conv split: if_splits option.splits)

lemma update_tag_row_stored:
  "update_tag_row t data = Inr (obj, Some row) \<Longrightarrow> fits 50 (tu_title data) \<Longrightarrow> row = obj"
  by (auto simp: update_tag_row_def Let_def stored_fits bind_eq_Some_conv
      split: if_splits option.splits)

lemma update_tag_row_id:
  "update_tag_row t data = Inr (obj, Some row) \<Longrightarrow> tag_id row = tag_id t"
  by (auto simp: update_tag_row_def Let_def bind_eq_Some_conv split: if_splits option.splits)

lemma update_tag_row_unchanged:
  "update_tag_row t data = Inr (obj, None) \<Longrightarrow> obj = t"
  by (auto simp: update_tag_row_def Let_def bind_eq_Some_conv split: if_splits option.splits)

lemma update_user_ok:
  assumes "get_by_id user_id (users db) uid = Some u"
    "update_user uid data db = (Inr (Some r), db')"
  shows "user_fields_applied data u (ur_user r) \<and>
         (user_update_fits data \<longrightarrow> get_by_id user_id (users db') uid = Some (ur_user r))"
proof -
  from assms obtain obj row where row: "update_user_row u data = Inr (obj, row)"
    by (auto simp: update_user_def get_session_def split: sum.splits)
  have r: "ur_user r = obj"
    using assms row
    by (auto simp: update_user_def get_session_def split: option.splits if_splits)
  have ap: "user_fields_applied data u obj" using row by (rule update_user_row_applied)
  have "get_by_id user_id (users db') uid = Some obj" if fit: "user_update_fits data"
  proof (cases row)
    case None
    then show ?thesis
      using assms row update_user_row_unchanged [of u data obj]
      by (auto simp: update_user_def get_session_def)
  next
    case (Some row')
    have eq: "row' = obj" using row Some fit update_user_row_stored by blast
    have id: "user_id row' = uid"
      using row Some update_user_row_id [of u data obj row'] get_by_id_Some [OF assms(1)]
      by simp
    show ?thesis
      using assms row Some id eq find_map_replace [of user_id uid "users db" u row']
      by (auto simp: update_user_def get_session_def get_by_id_def split: if_splits)
  qed
  then show ?thesis using ap r by simp
qed

lemma update_tag_ok:
  assumes "get_by_id tag_id (tags db) tid = Some t"
    "update_tag tid data db = (Inr (Some r), db')"
  shows "tag_fields_applied data t (tr_tag r) \<and>
         (fits 50 (tu_title data) \<longrightarrow> get_by_id tag_id (tags db') tid = Some (tr_tag r))"
proof -
  from assms obtain obj row where row: "update_tag_row t data = Inr (obj, row)"
    by (auto simp: update_tag_def get_session_def split: sum.splits)
  have r: "tr_tag r = obj"
    using assms row
    by (auto simp: update_tag_def get_session_def split: option.splits if_splits)
  have ap: "tag_fields_applied data t obj" using row by (rule update_tag_row_applied)
  have "get_by_id tag_id (tags db') tid = Some obj" if fit: "fits 50 (tu_title data)"
  proof (cases row)
    case None
    then show ?thesis
      using assms row update_tag_row_unchanged [of t data obj]
      by (auto simp: update_tag_def get_session_def)
  next
    case (Some row')
    have eq: "row' = obj" using row Some fit update_tag_row_stored by blast
    have id: "tag_id row' = tid"
      using row Some update_tag_row_id [of t data obj row'] get_by_id_Some [OF assms(1)]
      by simp
    show ?thesis
      using assms row Some id eq find_map_replace [of tag_id tid "tags db" t row']
      by (auto simp: update_tag_def get_session_def get_by_id_def split: if_splits)
  qed
  then show ?thesis using ap r by simp
qed

lemma flush_post_ok:
  assumes "get_by_id post_id (posts db) pid = Some p"
    "flush_post now p data new_tags db = (Inr (Some r), db')"
  shows "post_fields_applied data p (pr_post r) \<and>
         (fits 200 (pu_title data) \<longrightarrow> get_by_id post_id (posts db') pid = Some (pr_post r)) \<and>
         (new_tags = None \<longrightarrow> posts_tags db' = posts_tags db)"
proof -
  from assms(2) obtain obj row where row: "update_post_row now p data = Inr (obj, row)"
    by (auto simp: flush_post_def split: sum.splits)
  have r: "pr_post r = obj"
    using assms(2) row by (auto simp: flush_post_def Let_def)
  have ap: "post_fields_applied data p obj" using row by (rule update_post_row_applied)
  have st: "get_by_id post_id (posts db') pid = Some obj" if fit: "fits 200 (pu_title data)"
  proof (cases row)
    case None
    then show ?thesis
      using assms row update_post_row_unchanged [of now p data obj]
      by (auto simp: flush_post_def Let_def)
  next
    case (Some row')
    have eq: "row' = obj" using row Some fit update_post_row_stored by blast
    have id: "post_id row' = pid" "post_id p = pid"
      using row Some update_post_row_id [of now p data obj row'] get_by_id_Some [OF assms(1)]
      by simp_all
    show ?thesis
      using assms row Some id eq find_map_replace [of post_id pid "posts db" p row']
      by (auto simp: flush_post_def Let_def get_by_id_def)
  qed
  have "new_tags = None \<longrightarrow> posts_tags db' = posts_tags db"
    using assms(2) row by (auto simp: flush_post_def Let_def)
  then show ?thesis using ap r st by simp
qed

lemma update_post_ok:
  assumes "get_by_id post_id (posts db) pid = Some p"
    "update_post now pid data db = (Inr (Some r), db')"
  shows "post_fields_applied data p (pr_post r) \<and>
         (fits 200 (pu_title data) \<longrightarrow> get_by_id post_id (posts db') pid = Some (pr_post r)) \<and>
         (pu_tag_ids data = None \<or> pu_tag_ids data = Some None \<longrightarrow>
            posts_tags db' = posts_tags db)"
proof -
  from assms obtain nt where f: "flush_post now p data nt db = (Inr (Some r), db')"
    and nt: "pu_tag_ids data = None \<or> pu_tag_ids data = Some None \<longrightarrow> nt = None"
    by (auto simp: update_post_def get_session_def Let_def
        split: option.splits if_splits prod.splits sum.splits)
  show ?thesis using flush_post_ok [OF assms(1) f] nt by blast
qed

lemma update_user_raises: "update_user uid data db = (Inl e, db') \<Longrightarrow> db' = db"
  by (auto simp: update_user_def get_session_def rollback_same
      split: option.splits sum.splits if_splits)

lemma update_tag_raises: "update_tag tid data db = (Inl e, db') \<Longrightarrow> db' = db"
  by (auto simp: update_tag_def get_session_def rollback_same
      split: option.splits sum.splits if_splits)

lemma flush_post_raises: "flush_post now p data nt db = (Inl e, db') \<Longrightarrow> db' = db"
  by (auto simp: flush_post_def Let_def split: sum.splits)

lemma update_post_raises: "update_post now pid data db = (Inl e, db') \<Longrightarrow> db' = db"
proof -
  assume a: "update_post now pid data db = (Inl e, db')"
  then obtain d where d: "db' = rollback db d"
    and b: "(\<exists>nt. flush_post now (the (get_by_id post_id (posts db) pid)) data nt db = (Inl e, d))
            \<or> d = db"
    by (auto simp: update_post_def get_session_def Let_def
        split: option.splits sum.splits if_splits prod.splits)
  from b have "d = db" using flush_post_raises by blast
  then show ?thesis using d by (simp add: rollback_same)
qed

lemma update_user_empty:
  "get_by_id user_id (users db) uid = Some u \<Longrightarrow>
   update_user uid no_user_update db =
     (Inr (Some \<lparr>ur_user = u, ur_posts = posts_of_user db uid\<rparr>), db)"
  by (simp add: update_user_def get_session_def update_user_row_def no_user_update_def)

lemma update_post_empty:
  "get_by_id post_id (posts db) pid = Some p \<Longrightarrow>
   update_post now pid no_post_update db =
     (Inr (Some \<lparr>pr_post = p, pr_author = get_by_id user_id (users db) (author_id p),
                 pr_tags = tags_of_post db pid\<rparr>), db)"
  using get_by_id_Some [of post_id "posts db" pid p]
  by (simp add: update_post_def get_session_def update_post_row_def no_post_update_def
      flush_post_def)

lemma update_tag_empty:
  "get_by_id tag_id (tags db) tid = Some t \<Longrightarrow>
   update_tag tid no_tag_update db =
     (Inr (Some \<lparr>tr_tag = t, tr_posts = posts_of_tag db tid\<rparr>), db)"
  by (simp add: update_tag_def get_session_def update_tag_row_def no_tag_update_def)

text \<open>
  C4 (amended): for \<open>update_user\<close>, \<open>update_post\<close> and \<open>update_tag\<close> on an existing
  record. An update with an empty field-set succeeds and leaves the record and the whole
  database as they were. Whenever an update completes without raising, in the record it
  returns every field that was omitted has its old value, every field that was set has
  the value given (null included), and the columns that are no update fields keep their
  values; when the given texts fit their columns, that record is the one stored. An
  update that raises leaves the database as it was, so it applies none of its fields. For
  a post, a tag-id list that is omitted or null leaves the association rows as they were.
\<close>

theorem update_applies_given_fields:
  "(get_by_id user_id (users db) uid = Some u \<longrightarrow>
      update_user uid no_user_update db =
        (Inr (Some \<lparr>ur_user = u, ur_posts = posts_of_user db uid\<rparr>), db) \<and>
      (update_user uid ud db = (Inr (Some ur), udb) \<longrightarrow>
         user_fields_applied ud u (ur_user ur) \<and>
         (user_update_fits ud \<longrightarrow> get_by_id user_id (users udb) uid = Some (ur_user ur))) \<and>
      (update_user uid ud db = (Inl ue, udb) \<longrightarrow> udb = db)) \<and>
   (get_by_id post_id (posts db) pid = Some p \<longrightarrow>
      update_post now pid no_post_update db =
        (Inr (Some \<lparr>pr_post = p, pr_author = get_by_id user_id (users db) (author_id p),
                    pr_tags = tags_of_post db pid\<rparr>), db) \<and>
      (update_post now pid pd db = (Inr (Some pr), pdb) \<longrightarrow>
         post_fields_applied pd p (pr_post pr) \<and>
         (fits 200 (pu_title pd) \<longrightarrow> get_by_id post_id (posts pdb) pid = Some (pr_post pr)) \<and>
         (pu_tag_ids pd = None \<or> pu_tag_ids pd = Some None \<longrightarrow>
            posts_tags pdb = posts_tags db)) \<and>
      (update_post now pid pd db = (Inl pe, pdb) \<longrightarrow> pdb = db)) \<and>
   (get_by_id tag_id (tags db) tid = Some t \<longrightarrow>
      update_tag tid no_tag_update db =
        (Inr (Some \<lparr>tr_tag = t, tr_posts = posts_of_tag db tid\<rparr>), db) \<and>
      (update_tag tid td db = (Inr (Some tr), tdb) \<longrightarrow>
         tag_fields_applied td t (tr_tag tr) \<and>
         (fits 50 (tu_title td) \<longrightarrow> get_by_id tag_id (tags tdb) tid = Some (tr_tag tr))) \<and>
      (update_tag tid td db = (Inl te, tdb) \<longrightarrow> tdb = db))"
proof (intro conjI impI)
  assume u: "get_by_id user_id (users db) uid = Some u"
  show "update_user uid no_user_update db =
        (Inr (Some \<lparr>ur_user = u, ur_posts = posts_of_user db uid\<rparr>), db)"
    using u by (rule update_user_empty)
  {
    assume ok: "update_user uid ud db = (Inr (Some ur), udb)"
    from update_user_ok [OF u ok]
    show "user_fields_applied ud u (ur_user ur)" by simp
    assume "user_update_fits ud"
    with update_user_ok [OF u ok]
    show "get_by_id user_id (users udb) uid = Some (ur_user ur)" by simp
  }
  assume "update_user uid ud db = (Inl ue, udb)"
  then show "udb = db" by (rule update_user_raises)
next
  assume p: "get_by_id post_id (posts db) pid = Some p"
  show "update_post now pid no_post_update db =
        (Inr (Some \<lparr>pr_post = p, pr_author = get_by_id user_id (users db) (author_id p),
                    pr_tags = tags_of_post db pid\<rparr>), db)"
    using p by (rule update_post_empty)
  {
    assume ok: "update_post now pid pd db = (Inr (Some pr), pdb)"
    note r = update_post_ok [OF p ok]
    from r show "post_fields_applied pd p (pr_post pr)" by simp
    {
      assume "fits 200 (pu_title pd)"
      with r show "get_by_id post_id (posts pdb) pid = Some (pr_post pr)" by simp
    }
    assume "pu_tag_ids pd = None \<or> pu_tag_ids pd = Some None"
    with r show "posts_tags pdb = posts_tags db" by blast
  }
  assume "update_post now pid pd db = (Inl pe, pdb)"
  then show "pdb = db" by (rule update_post_raises)
next
  assume t: "get_by_id tag_id (tags db) tid = Some t"
  show "update_tag tid no_tag_update db =
        (Inr (Some \<lparr>tr_tag = t, tr_posts = posts_of_tag db tid\<rparr>), db)"
    using t by (rule update_tag_empty)
  {
    assume ok: "update_tag tid td db = (Inr (Some tr), tdb)"
    from update_tag_ok [OF t ok]
    show "tag_fields_applied td t (tr_tag tr)" by simp
    assume "fits 50 (tu_title td)"
    with update_tag_ok [OF t ok]
    show "get_by_id tag_id (tags tdb) tid = Some (tr_tag tr)" by simp
  }
  assume "update_tag tid td db = (Inl te, tdb)"
  then show "tdb = db" by (rule update_tag_raises)
qed

theorem update_applies_given_fields_witness:
  "get_by_id user_id (users sample_db) 1 = Some alice \<and>
   update_user 1 no_user_update sample_db =
     (Inr (Some \<lparr>ur_user = alice, ur_posts = posts_of_user sample_db 1\<rparr>), sample_db) \<and>
   update_user 1 (no_user_update\<lparr>uu_location := Some (Some (str ''Rome'')),
                                 uu_job_title := Some None\<rparr>) sample_db =
     (Inr (Some \<lparr>ur_user = alice\<lparr>location := Some (str ''Rome''), job_title := None\<rparr>,
                 ur_posts = [post_hello]\<rparr>),
      sample_db\<lparr>users := [alice\<lparr>location := Some (str ''Rome''), job_title := None\<rparr>, bob]\<rparr>) \<and>
   user_fields_applied
     (no_user_update\<lparr>uu_location := Some (Some (str ''Rome'')), uu_job_title := Some None\<rparr>)
     alice (alice\<lparr>location := Some (str ''Rome''), job_title := None\<rparr>) \<and>
   update_user 1 (no_user_update\<lparr>uu_nickname := Some (Some (str ''bob''))\<rparr>) sample_db =
     (Inl IntegrityError, sample_db) \<and>
   get_by_id post_id (posts sample_db) 2 = Some post_notes \<and>
   update_post 9 2 (no_post_update\<lparr>pu_title := Some (Some (str ''Memo'')),
                                   pu_tag_ids := Some None\<rparr>) sample_db =
     (Inr (Some \<lparr>pr_post = post_notes\<lparr>post_title := str ''Memo'', updated_at := 9\<rparr>,
                 pr_author = Some bob, pr_tags = []\<rparr>),
      sample_db\<lparr>posts := [post_hello,
                           post_notes\<lparr>post_title := str ''Memo'', updated_at := 9\<rparr>]\<rparr>) \<and>
   post_fields_applied
     (no_post_update\<lparr>pu_title := Some (Some (str ''Memo'')), pu_tag_ids := Some None\<rparr>)
     post_notes (post_notes\<lparr>post_title := str ''Memo'', updated_at := 9\<rparr>) \<and>
   update_post 9 2 (no_post_update\<lparr>pu_title := Some (Some (replicate 201 65))\<rparr>) sample_db =
     (Inl DataError, sample_db) \<and>
   get_by_id tag_id (tags sample_db) 2 = Some tag_tech \<and>
   update_tag 2 (no_tag_update\<lparr>tu_description := Some None\<rparr>) sample_db =
     (Inr (Some \<lparr>tr_tag = tag_tech\<lparr>description := None\<rparr>, tr_posts = [post_hello]\<rparr>),
      sample_db\<lparr>tags := [tag_news, tag_tech\<lparr>description := None\<rparr>]\<rparr>) \<and>
   tag_fields_applied (no_tag_update\<lparr>tu_description := Some None\<rparr>)
     tag_tech (tag_tech\<lparr>description := None\<rparr>) \<and>
   update_tag 2 (no_tag_update\<lparr>tu_title := Some None\<rparr>) sample_db =
     (Inl IntegrityError, sample_db)"
proof -
  let ?ud = "no_user_update\<lparr>uu_location := Some (Some (str ''Rome'')),
                            uu_job_title := Some None\<rparr>"
  let ?pd = "no_post_update\<lparr>pu_title := Some (Some (str ''Memo'')), pu_tag_ids := Some None\<rparr>"
  let ?td = "no_tag_update\<lparr>tu_description := Some None\<rparr>"
  let ?ur = "\<lparr>ur_user = alice\<lparr>location := Some (str ''Rome''), job_title := None\<rparr>,
              ur_posts = [post_hello]\<rparr>"
  let ?udb = "sample_db\<lparr>users := [alice\<lparr>location := Some (str ''Rome''),
                                         job_title := None\<rparr>, bob]\<rparr>"
  let ?pr = "\<lparr>pr_post = post_notes\<lparr>post_title := str ''Memo'', updated_at := 9\<rparr>,
              pr_author = Some bob, pr_tags = []\<rparr>"
  let ?pdb = "sample_db\<lparr>posts := [post_hello,
                                  post_notes\<lparr>post_title := str ''Memo'', updated_at := 9\<rparr>]\<rparr>"
  let ?tr = "\<lparr>tr_tag = tag_tech\<lparr>description := None\<rparr>, tr_posts = [post_hello]\<rparr>"
  let ?tdb = "sample_db\<lparr>tags := [tag_news, tag_tech\<lparr>description := None\<rparr>]\<rparr>"
  let ?ud2 = "no_user_update\<lparr>uu_nickname := Some (Some (str ''bob''))\<rparr>"
  let ?pd2 = "no_post_update\<lparr>pu_title := Some (Some (replicate 201 65))\<rparr>"
  let ?td2 = "no_tag_update\<lparr>tu_title := Some None\<rparr>"
  have u: "get_by_id user_id (users sample_db) 1 = Some alice"
    by (simp add: get_by_id_def sample_defs)
  have p: "get_by_id post_id (posts sample_db) 2 = Some post_notes"
    by (simp add: get_by_id_def sample_defs)
  have t: "get_by_id tag_id (tags sample_db) 2 = Some tag_tech"
    by (simp add: get_by_id_def sample_defs)
  have eu: "update_user 1 ?ud sample_db = (Inr (Some ?ur), ?udb)"
    by (simp add: update_user_def get_session_def get_by_id_def update_user_row_def
        user_conflict_def posts_of_user_def no_user_update_def sample_defs
        Let_def refused_def too_long_def stored_def stored_opt_def)
  have ep: "update_post 9 2 ?pd sample_db = (Inr (Some ?pr), ?pdb)"
    by (simp add: update_post_def get_session_def get_by_id_def update_post_row_def
        flush_post_def tags_of_post_def no_post_update_def sample_defs
        Let_def refused_def too_long_def stored_def)
  have et: "update_tag 2 ?td sample_db = (Inr (Some ?tr), ?tdb)"
    by (simp add: update_tag_def get_session_def get_by_id_def update_tag_row_def
        tag_conflict_def posts_of_tag_def no_tag_update_def sample_defs
        Let_def refused_def too_long_def stored_def)
  have ru: "\<exists>d. update_user 1 ?ud2 sample_db = (Inl IntegrityError, d)"
    by (simp add: update_user_def get_session_def get_by_id_def update_user_row_def
        user_conflict_def no_user_update_def sample_defs
        Let_def refused_def too_long_def stored_def stored_opt_def)
  have ne: "replicate 201 (65 :: nat) \<noteq> [78, 111, 116, 101, 115]"
  proof
    assume "replicate 201 (65 :: nat) = [78, 111, 116, 101, 115]"
    then have "length (replicate 201 (65 :: nat)) = length [78, 111, 116, 101, 115 :: nat]"
      by simp
    then show False by simp
  qed
  have rp: "\<exists>d. update_post 9 2 ?pd2 sample_db = (Inl DataError, d)"
    using ne
    by (simp add: update_post_def get_session_def get_by_id_def update_post_row_def
        flush_post_def no_post_update_def sample_defs Let_def refused_def too_long_def)
  have rt: "\<exists>d. update_tag 2 ?td2 sample_db = (Inl IntegrityError, d)"
    by (simp add: update_tag_def get_session_def get_by_id_def update_tag_row_def
        no_tag_update_def sample_defs Let_def refused_def too_long_def)
  note th = update_applies_given_fields
    [where db = sample_db and uid = 1 and u = alice and pid = 2 and p = post_notes
       and now = 9 and tid = 2 and t = tag_tech]
  from th u have a1: "update_user 1 no_user_update sample_db =
     (Inr (Some \<lparr>ur_user = alice, ur_posts = posts_of_user sample_db 1\<rparr>), sample_db)"
    by blast
  from th [where ud = ?ud and ur = ?ur and udb = ?udb] u eu
  have a2: "user_fields_applied ?ud alice (ur_user ?ur)" by blast
  from th [where pd = ?pd and pr = ?pr and pdb = ?pdb] p ep
  have a3: "post_fields_applied ?pd post_notes (pr_post ?pr)" by blast
  from th [where td = ?td and tr = ?tr and tdb = ?tdb] t et
  have a4: "tag_fields_applied ?td tag_tech (tr_tag ?tr)" by blast
  from ru obtain d1 where d1: "update_user 1 ?ud2 sample_db = (Inl IntegrityError, d1)" ..
  from th [where ud = ?ud2 and ue = IntegrityError and udb = d1] u d1
  have "d1 = sample_db" by blast
  with d1 have b1: "update_user 1 ?ud2 sample_db = (Inl IntegrityError, sample_db)" by simp
  from rp obtain d2 where d2: "update_post 9 2 ?pd2 sample_db = (Inl DataError, d2)" ..
  from th [where pd = ?pd2 and pe = DataError and pdb = d2] p d2
  have "d2 = sample_db" by blast
  with d2 have b2: "update_post 9 2 ?pd2 sample_db = (Inl DataError, sample_db)" by simp
  from rt obtain d3 where d3: "update_tag 2 ?td2 sample_db = (Inl IntegrityError, d3)" ..
  from th [where td = ?td2 and te = IntegrityError and tdb = d3] t d3
  have "d3 = sample_db" by blast
  with d3 have b3: "update_tag 2 ?td2 sample_db = (Inl IntegrityError, sample_db)" by simp
  show ?thesis using u a1 eu a2 b1 p ep a3 b2 t et a4 b3 by (intro conjI) simp_all
qed

theorem update_applies_given_fields_counterexample:
  "get_by_id post_id (posts sample_db) 1 = Some post_hello \<and>
   pu_title (retag\<lparr>pu_tag_ids := Some (Some [9])\<rparr>) = Some (Some (str ''Updated'')) \<and>
   update_post 4 1 (retag\<lparr>pu_tag_ids := Some (Some [9])\<rparr>) sample_db =
     (Inl (TagsNotFound {9}), sample_db) \<and>
   post_title post_hello \<noteq> str ''Updated''"
  by (simp add: update_post_def get_session_def get_by_id_def select_tags_in_def sample_defs
      retag_def rollback_def)

section \<open>Search\<close>

lemma like_percent_all: "like [37] s"
  by (induction s) auto

lemma like_plain_prefix: "plain p \<Longrightarrow> like (p @ [37]) s \<longleftrightarrow> prefix p s"
proof (induction p arbitrary: s)
  case Nil
  then show ?case using like_percent_all by simp
next
  case (Cons a p)
  then show ?case by (cases s) (auto simp: plain_def)
qed

lemma like_percent: "like (37 # p) s \<longleftrightarrow> (\<exists>t. suffix t s \<and> like p t)"
proof (induction s)
  case Nil
  then show ?case by simp
next
  case (Cons c s)
  then show ?case by (auto simp: suffix_Cons)
qed

lemma like_contains:
  assumes "plain p"
  shows "like (37 # p @ [37]) s \<longleftrightarrow> sublist p s"
  by (simp only: like_percent like_plain_prefix [OF assms] sublist_altdef')

lemma plain_lower: "plain x \<Longrightarrow> plain (map lower x)"
  by (induction x) (auto simp: plain_def lower_def)

lemma ilike_contains:
  assumes "plain x"
  shows "ilike (37 # x @ [37]) s \<longleftrightarrow> icontains x s"
proof -
  have "lower 37 = 37" by (simp add: lower_def)
  then have "ilike (37 # x @ [37]) s = like (37 # map lower x @ [37]) (map lower s)"
    by (simp add: ilike_def del: like.simps)
  also have "\<dots> = sublist (map lower x) (map lower s)"
    by (rule like_contains [OF plain_lower [OF assms]])
  finally show ?thesis by (simp add: icontains_def)
qed

lemma filter_on_empty: "filter_on f col = [] \<longleftrightarrow> \<not> provided f"
  by (cases f) auto

lemma filter_on_matches:
  "plain_filter f \<Longrightarrow> list_ex (\<lambda>g. g r) (filter_on f col) \<longleftrightarrow> field_matches f (col r)"
  by (cases f; cases "col r") (auto simp: ilike_contains simp del: like.simps)

lemma run_query_filter:
  "run_query fs skip limit table =
     take limit (drop skip (filter (\<lambda>r. fs = [] \<or> list_ex (\<lambda>g. g r) fs) table))"
  by (cases fs) (simp_all add: run_query_def)

lemma user_query:
  assumes "plain_filter (us_nickname sp)" "plain_filter (us_email sp)"
    "plain_filter (us_location sp)" "plain_filter (us_job_title sp)"
  shows "run_query (user_filters sp) skip limit table =
     take limit (drop skip (filter (user_selected sp) table))"
proof -
  have "(user_filters sp = [] \<or> list_ex (\<lambda>g. g u) (user_filters sp)) = user_selected sp u" for u
    using assms
    by (simp add: user_filters_def user_selected_def filter_on_empty filter_on_matches)
  then show ?thesis by (simp add: run_query_filter)
qed

lemma post_query:
  assumes "plain_filter (ps_title sp)" "plain_filter (ps_content sp)"
  shows "run_query (post_filters sp) skip limit table =
     take limit (drop skip (filter (post_selected sp) table))"
proof -
  have "(post_filters sp = [] \<or> list_ex (\<lambda>g. g p) (post_filters sp)) = post_selected sp p" for p
    using assms
    by (simp add: post_filters_def post_selected_def filter_on_empty filter_on_matches)
  then show ?thesis by (simp add: run_query_filter)
qed

text \<open>
  C5 (amended): in \<open>search_users\<close> and \<open>search_posts\<close>, when none of the filter texts has
  one of the characters \<open>%\<close>, \<open>_\<close> and backslash, the rows of the table are selected
  thus: with no non-empty filter, every row; otherwise the rows in which some non-empty
  filter text is contained, the case of the letters A to Z aside, in the row's value of
  that column (a null value contains nothing). A filter that is absent or empty selects
  nothing and excludes nothing. Of the selected rows, in table order, the first \<open>skip\<close>
  are dropped and at most \<open>limit\<close> of the rest are returned, each with its relations as
  the flags ask. The search does not raise and changes nothing.
\<close>

theorem search_selects_and_paginates:
  "(plain_filter (us_nickname us) \<and> plain_filter (us_email us) \<and>
    plain_filter (us_location us) \<and> plain_filter (us_job_title us) \<longrightarrow>
    search_users us db =
      (Inr (map (\<lambda>u. \<lparr>ur_user = u,
                        ur_posts = (if us_include_posts us
                                    then posts_of_user db (user_id u) else [])\<rparr>)
             (take (us_limit us) (drop (us_skip us) (filter (user_selected us) (users db))))),
       db)) \<and>
   (plain_filter (ps_title ps) \<and> plain_filter (ps_content ps) \<longrightarrow>
    search_posts ps db =
      (Inr (map (\<lambda>p. \<lparr>pr_post = p,
                        pr_author = (if ps_include_author ps
                                     then get_by_id user_id (users db) (author_id p) else None),
                        pr_tags = (if ps_include_tags ps
                                   then tags_of_post db (post_id p) else [])\<rparr>)
             (take (ps_limit ps) (drop (ps_skip ps) (filter (post_selected ps) (posts db))))),
       db))"
  by (simp add: search_users_def search_posts_def get_session_def user_query post_query)

theorem search_selects_and_paginates_witness:
  "plain_filter (us_nickname by_three) \<and> plain_filter (us_email by_three) \<and>
   plain_filter (us_location by_three) \<and> plain_filter (us_job_title by_three) \<and>
   filter (user_selected by_three) (users people_db) = [alice, bob, carol, dave] \<and>
   search_users by_three people_db =
     (Inr [\<lparr>ur_user = bob, ur_posts = [post_notes]\<rparr>, \<lparr>ur_user = carol, ur_posts = []\<rparr>],
      people_db) \<and>
   plain_filter (ps_title by_two) \<and> plain_filter (ps_content by_two) \<and>
   filter (post_selected by_two) (posts sample_db) = [post_hello, post_notes] \<and>
   search_posts by_two sample_db =
     (Inr [\<lparr>pr_post = post_hello, pr_author = Some alice, pr_tags = [tag_news, tag_tech]\<rparr>],
      sample_db)"
proof -
  have h: "plain_filter (us_nickname by_three) \<and> plain_filter (us_email by_three) \<and>
    plain_filter (us_location by_three) \<and> plain_filter (us_job_title by_three)"
    by (simp add: by_three_def plain_def str_def)
  have g: "plain_filter (ps_title by_two) \<and> plain_filter (ps_content by_two)"
    by (simp add: by_two_def plain_def str_def)
  have fu: "filter (user_selected by_three) (users people_db) = [alice, bob, carol, dave]"
    by (simp add: user_selected_def by_three_def sample_defs icontains_def lower_def
        sublist_Cons_right)
  have fp: "filter (post_selected by_two) (posts sample_db) = [post_hello, post_notes]"
    by (simp add: post_selected_def by_two_def sample_defs icontains_def lower_def
        sublist_Cons_right)
  note th = search_selects_and_paginates [of by_three people_db by_two]
  note th' = search_selects_and_paginates [of by_three sample_db by_two]
  from th h have "search_users by_three people_db =
      (Inr (map (\<lambda>u. \<lparr>ur_user = u,
                        ur_posts = (if us_include_posts by_three
                                    then posts_of_user people_db (user_id u) else [])\<rparr>)
             (take (us_limit by_three) (drop (us_skip by_three)
                (filter (user_selected by_three) (users people_db))))), people_db)"
    by blast
  then have a: "search_users by_three people_db =
     (Inr [\<lparr>ur_user = bob, ur_posts = [post_notes]\<rparr>, \<lparr>ur_user = carol, ur_posts = []\<rparr>],
      people_db)"
    unfolding fu by (simp add: by_three_def posts_of_user_def sample_defs)
  from th' g have "search_posts by_two sample_db =
      (Inr (map (\<lambda>p. \<lparr>pr_post = p,
                        pr_author = (if ps_include_author by_two
                                     then get_by_id user_id (users sample_db) (author_id p)
                                     else None),
                        pr_tags = (if ps_include_tags by_two
                                   then tags_of_post sample_db (post_id p) else [])\<rparr>)
             (take (ps_limit by_two) (drop (ps_skip by_two)
                (filter (post_selected by_two) (posts sample_db))))), sample_db)"
    by blast
  then have b: "search_posts by_two sample_db =
     (Inr [\<lparr>pr_post = post_hello, pr_author = Some alice, pr_tags = [tag_news, tag_tech]\<rparr>],
      sample_db)"
    unfolding fp by (simp add: by_two_def get_by_id_def tags_of_post_def sample_defs)
  show ?thesis using h fu a g fp b by (intro conjI) simp_all
qed

theorem search_selects_and_paginates_counterexample:
  "us_nickname (by_job\<lparr>us_job_title := Some (str ''Poet''), us_nickname := Some []\<rparr>) = Some [] \<and>
   icontains [] (nickname alice) \<and> alice \<in> set (users sample_db) \<and>
   search_users (by_job\<lparr>us_job_title := Some (str ''Poet''), us_nickname := Some []\<rparr>)
       sample_db =
     (Inr [], sample_db)"
  by (simp add: search_users_def get_session_def user_filters_def run_query_def by_job_def
      sample_defs ilike_def icontains_def lower_def)

section \<open>Reset\<close>

lemma execute_all_append:
  "execute_all exec (pre @ rest) db =
     (case execute_all exec pre db of
        (Inl e, d) \<Rightarrow> (Inl e, d)
      | (Inr u, d) \<Rightarrow> execute_all exec rest d)"
  by (induction pre arbitrary: db) (auto split: sum.splits)

text \<open>
  C3 (amended): when a statement of the seed script fails during \<open>reset_database\<close>, the
  statements after it are not executed, the exception is raised again, and the session
  rolls back the statements executed before it: the schema is left recreated with all
  four tables empty.
\<close>

theorem reset_database_failure_rolls_back:
  assumes "split 59 sql = pre @ statement # rest"
    "execute_all exec pre create_all = (Inr (), db1)"
    "strip statement \<noteq> []" "exec statement db1 = Inl e"
  shows "reset_database exec (Some sql) db = (Inl e, rollback create_all db1) \<and>
         users (rollback create_all db1) = [] \<and> posts (rollback create_all db1) = [] \<and>
         tags (rollback create_all db1) = [] \<and> posts_tags (rollback create_all db1) = []"
proof -
  have "reset_database exec (Some sql) db = (Inl e, rollback create_all db1)"
    by (simp add: reset_database_def get_session_def assms execute_all_append)
  then show ?thesis by (simp add: rollback_def create_all_def)
qed

theorem reset_database_failure_rolls_back_witness:
  "split 59 (str ''INSERT TAG;'' @ [160, 133] @ str ''; DROP;INSERT TAG'') =
     [str ''INSERT TAG'', [160, 133]] @ str '' DROP'' # [str ''INSERT TAG''] \<and>
   execute_all insert_tag_only [str ''INSERT TAG'', [160, 133]] create_all =
     (Inr (), create_all\<lparr>tags := [tag_news]\<rparr>) \<and>
   strip (str '' DROP'') \<noteq> [] \<and>
   insert_tag_only (str '' DROP'') (create_all\<lparr>tags := [tag_news]\<rparr>) = Inl StatementError \<and>
   reset_database insert_tag_only
       (Some (str ''INSERT TAG;'' @ [160, 133] @ str ''; DROP;INSERT TAG'')) sample_db =
     (Inl StatementError, create_all) \<and>
   tags create_all = []"
proof -
  let ?db1 = "create_all\<lparr>tags := [tag_news]\<rparr>"
  let ?sql = "str ''INSERT TAG;'' @ [160, 133] @ str ''; DROP;INSERT TAG''"
  have h1: "split 59 ?sql = [str ''INSERT TAG'', [160, 133]] @ str '' DROP'' # [str ''INSERT TAG'']"
    by (simp add: split_def str_def)
  have h2: "execute_all insert_tag_only [str ''INSERT TAG'', [160, 133]] create_all =
      (Inr (), ?db1)"
    by (simp add: insert_tag_only_def strip_def isspace_def create_all_def str_def)
  have h3: "strip (str '' DROP'') \<noteq> []" by (simp add: strip_def isspace_def str_def)
  have h4: "insert_tag_only (str '' DROP'') ?db1 = Inl StatementError"
    by (simp add: insert_tag_only_def strip_def isspace_def str_def)
  have r: "rollback create_all ?db1 = create_all" by (simp add: rollback_def create_all_def)
  from reset_database_failure_rolls_back [OF h1 h2 h3 h4, of sample_db]
  have a: "reset_database insert_tag_only (Some ?sql) sample_db =
     (Inl StatementError, create_all)" and b: "tags create_all = []"
    unfolding r by simp_all
  show ?thesis using h1 h2 h3 h4 a b by (intro conjI)
qed

theorem reset_database_failure_rolls_back_counterexample:
  "split 59 (str ''INSERT TAG; BOGUS;'') = [str ''INSERT TAG'', str '' BOGUS'', []] \<and>
   insert_tag_only (str ''INSERT TAG'') create_all = Inr (create_all\<lparr>tags := [tag_news]\<rparr>) \<and>
   insert_tag_only (str '' BOGUS'') (create_all\<lparr>tags := [tag_news]\<rparr>) = Inl StatementError \<and>
   reset_database insert_tag_only (Some (str ''INSERT TAG; BOGUS;'')) sample_db =
     (Inl StatementError, create_all) \<and>
   tags create_all \<noteq> tags (create_all\<lparr>tags := [tag_news]\<rparr>)"
  by (simp add: reset_database_def get_session_def split_def insert_tag_only_def strip_def
      isspace_def rollback_def create_all_def str_def)

end
